theory Spec2Isabelle
  imports Main
begin

section \<open>The Discord notification dispatcher of \<^verbatim>\<open>src/lib/discord-bot.ts\<close>\<close>

text \<open>
  A shallow embedding of the module \<^verbatim>\<open>discord-bot.ts\<close>: its three module-level variables
  (\<^verbatim>\<open>client\<close>, \<^verbatim>\<open>isReady\<close>, \<^verbatim>\<open>messageQueue\<close>) become fields of one state record that
  every function takes and returns. What the module does to the outside world is kept in
  the same record: the timers it arms, the logins it starts and the sends it attempts.
  What the outside world answers (whether a send succeeds, how long it takes) is a
  parameter of the functions that wait for it. Console output is not modelled.

  An \<^verbatim>\<open>async\<close> function stops at each \<^verbatim>\<open>await\<close> and other handlers run meanwhile. The
  functions \<open>sendDirectMessageInternal\<close>, \<open>processMessageQueue\<close> and \<open>sendDirectMessage\<close> below
  describe a call that nothing interrupts while it awaits its send; for the one-second wait
  of \<open>sendDirectMessage\<close> the events delivered during it are a parameter. Drain passes that
  overlap, as the timers of the module make them, are described by the steps
  \<open>processMessageQueue_begin\<close> and \<open>processMessageQueue_end\<close> and their schedules (\<open>drain\<close>).
\<close>

subsection \<open>Data\<close>

text \<open>The literal type \<^verbatim>\<open>'approved' | 'denied'\<close>.\<close>

datatype status = Approved | Denied

text \<open>
  An element of \<^verbatim>\<open>messageQueue\<close>. The optional \<^verbatim>\<open>reason\<close> is \<open>None\<close> when the property is
  \<^verbatim>\<open>undefined\<close>; \<^verbatim>\<open>retries\<close> only ever counts up from 0.
\<close>

record message =
  userId :: string
  status :: status
  reason :: "string option"
  retries :: nat

text \<open>\<^verbatim>\<open>applicationConfig.discordBot\<close>, declared in the configuration module.\<close>

record discordBot_config =
  serverName :: string
  serverIcon :: string
  footerText :: string

definition applicationConfig :: discordBot_config where
  "applicationConfig =
     \<lparr>serverName = ''Aura Development'',
      serverIcon = ''https://i.postimg.cc/X71XVpvP/LOGO-Aura-City-2000x2000-V2-by-Flight-Design.png'',
      footerText = [CHR 0xC2, CHR 0xA9] @ '' 2024 Aura Development - All rights reserved''\<rparr>"

text \<open>
  The errors a send attempt throws; all are handled alike by the callers. \<open>Validation_error\<close>
  is the error of discord.js' builders when they refuse an argument.
\<close>

datatype send_error =
    Not_initialized
  | Validation_error
  | User_fetch_timeout
  | User_not_found
  | Message_send_timeout
  | Api_error string

subsection \<open>Text\<close>

text \<open>
  Strings are kept as UTF-8 bytes, those of the source file for its literals. The length
  that JavaScript gives a string counts UTF-16 code units: one for each character, two for
  a character outside the basic plane, which UTF-8 writes in four bytes.
\<close>

definition continuation :: "char \<Rightarrow> bool" where
  "continuation c = (128 \<le> (of_char c :: nat) \<and> (of_char c :: nat) < 192)"

definition lead4 :: "char \<Rightarrow> bool" where
  "lead4 c = (240 \<le> (of_char c :: nat))"

definition js_length :: "string \<Rightarrow> nat" where
  "js_length t = length (filter (\<lambda>c. \<not> continuation c) t) + length (filter lead4 t)"

text \<open>The decimal digits of a non-negative integer, as a template literal prints it.\<close>

definition digit_char :: "nat \<Rightarrow> char" where
  "digit_char d = ''0123456789'' ! d"

fun digits :: "nat \<Rightarrow> string" where
  "digits n =
     (if n < 10 then [digit_char n]
      else digits (n div 10) @ [digit_char (n mod 10)])"

declare digits.simps [simp del]

definition nl :: string where
  "nl = [CHR 0x0A]"

definition approved_description :: string where
  "approved_description =
     ''Hello there,'' @ nl @ nl @
     ''After reviewing your application, we're excited to let you know that your whitelist application has been **ACCEPTED**! '' @
     [CHR 0xEF, CHR 0xA3, CHR 0xBF, CHR 0xC3, CHR 0xBC, CHR 0xC3, CHR 0xA9, CHR 0xC3, CHR 0xA2] @ nl @ nl @
     ''Your responses demonstrated a strong understanding of roleplay and alignment with our community values. We believe you'll be a great addition to our server!'' @
     nl @ nl @ ''**Next Steps:**'' @ nl @
     ''1. Join our Discord server if you haven't already'' @ nl @
     ''2. Read the rules and guidelines in #server-rules'' @ nl @
     ''3. Connect to the server using your whitelisted Steam account''"

definition denied_description :: string where
  "denied_description =
     ''Hello there,'' @ nl @ nl @
     ''After careful consideration of your whitelist application, we regret to inform you that your application has been **DENIED** at this time.'' @
     nl @ nl @
     ''You may reapply after a 14-day waiting period, taking into account the feedback provided.''"

definition accepted_value :: string where
  "accepted_value =
     [CHR 0xE2, CHR 0x80, CHR 0x9A, CHR 0xC3, CHR 0xBA, CHR 0xC3, CHR 0x96] @ '' Accepted''"

definition denied_value :: string where
  "denied_value =
     [CHR 0xE2, CHR 0x80, CHR 0x9A, CHR 0xC3, CHR 0xB9, CHR 0xC3, CHR 0xA5] @ '' Denied''"

definition important_information :: string where
  "important_information =
     ''Please make sure to read our server rules and guidelines before connecting. If you have any questions, our staff team is here to help!''"

subsection \<open>The embed builder\<close>

text \<open>
  discord.js' \<^verbatim>\<open>EmbedBuilder\<close> as the data it collects: every part is unset in a new builder
  and a setter stores its argument. The builder validates what it is given and throws when
  it refuses it: a field needs a name of 1 to 256 and a value of 1 to 1024 characters, an
  embed takes at most 25 fields, the name of the author needs 1 to 256 and the text of the
  footer 1 to 2048 characters. A throw is the result \<open>Inl Validation_error\<close>. The title, the
  description and the colour given by this module are constants that pass. The builder
  also wants the icon of the author and of the footer to be a URL; the icon of the
  branding configuration is taken to be one, as the repository's is.
\<close>

record embed_author =
  author_name :: string
  author_iconURL :: string

record embed_field =
  field_name :: string
  field_value :: string
  field_inline :: "bool option"

record embed_footer =
  footer_text :: string
  footer_iconURL :: string

record embed =
  color :: "string option"
  author :: "embed_author option"
  title :: "string option"
  description :: "string option"
  embed_fields :: "embed_field list"
  footer :: "embed_footer option"
  timestamp :: "nat option"

definition new_EmbedBuilder :: embed where
  "new_EmbedBuilder =
     \<lparr>color = None, author = None, title = None, description = None,
      embed_fields = [], footer = None, timestamp = None\<rparr>"

text \<open>A string of at least one and at most \<open>n\<close> characters.\<close>

definition within :: "nat \<Rightarrow> string \<Rightarrow> bool" where
  "within n t = (t \<noteq> [] \<and> js_length t \<le> n)"

definition valid_field :: "embed_field \<Rightarrow> bool" where
  "valid_field f = (within 256 (field_name f) \<and> within 1024 (field_value f))"

definition setColor :: "string \<Rightarrow> embed \<Rightarrow> embed" where
  "setColor c e = e\<lparr>color := Some c\<rparr>"

definition setAuthor :: "embed_author \<Rightarrow> embed \<Rightarrow> send_error + embed" where
  "setAuthor a e =
     (if within 256 (author_name a) then Inr (e\<lparr>author := Some a\<rparr>) else Inl Validation_error)"

definition setTitle :: "string \<Rightarrow> embed \<Rightarrow> embed" where
  "setTitle t e = e\<lparr>title := Some t\<rparr>"

definition setDescription :: "string \<Rightarrow> embed \<Rightarrow> embed" where
  "setDescription d e = e\<lparr>description := Some d\<rparr>"

definition addFields :: "embed_field list \<Rightarrow> embed \<Rightarrow> send_error + embed" where
  "addFields fs e =
     (if list_all valid_field fs \<and> length (embed_fields e) + length fs \<le> 25
      then Inr (e\<lparr>embed_fields := embed_fields e @ fs\<rparr>)
      else Inl Validation_error)"

definition setFooter :: "embed_footer \<Rightarrow> embed \<Rightarrow> send_error + embed" where
  "setFooter f e =
     (if within 2048 (footer_text f) then Inr (e\<lparr>footer := Some f\<rparr>) else Inl Validation_error)"

text \<open>
  \<^verbatim>\<open>setTimestamp()\<close> without an argument takes the current time, here in milliseconds, and
  stores it unless it is 0, which it takes for no time at all.
\<close>

definition setTimestamp :: "nat \<Rightarrow> embed \<Rightarrow> embed" where
  "setTimestamp t e = e\<lparr>timestamp := (if t = 0 then None else Some t)\<rparr>"

subsection \<open>The composer: lines 82 to 129 of \<^verbatim>\<open>sendDirectMessageInternal\<close>\<close>

text \<open>
  \<^verbatim>\<open>if (reason)\<close> tests the truthiness of an optional string: \<^verbatim>\<open>undefined\<close> and the empty
  string are both falsy.
\<close>

definition truthy :: "string option \<Rightarrow> bool" where
  "truthy r = (case r of None \<Rightarrow> False | Some t \<Rightarrow> t \<noteq> [])"

text \<open>
  The part of \<^verbatim>\<open>sendDirectMessageInternal\<close> that builds the embed. It reads the clock twice:
  \<^verbatim>\<open>Date.now()\<close> for the decision date (\<open>now1\<close>) and once more inside \<^verbatim>\<open>setTimestamp()\<close>
  (\<open>now2\<close>), both in milliseconds. The result is the embed, or the error of the first
  builder call that throws.
\<close>

definition composeEmbed ::
  "discordBot_config \<Rightarrow> nat \<Rightarrow> nat \<Rightarrow> status \<Rightarrow> string option \<Rightarrow> send_error + embed" where
  "composeEmbed cfg now1 now2 st rsn =
     (let timestamp = now1 div 1000;
          timestampLong = ''<t:'' @ digits timestamp @ '':F>''
      in
        case setAuthor \<lparr>author_name = serverName cfg, author_iconURL = serverIcon cfg\<rparr>
               (setColor (if st = Approved then ''#00FF00'' else ''#FF0000'') new_EmbedBuilder) of
          Inl err \<Rightarrow> Inl err
        | Inr embed0 \<Rightarrow>
        case addFields
               [\<lparr>field_name = ''Application Status'',
                 field_value = (if st = Approved then accepted_value else denied_value),
                 field_inline = Some True\<rparr>,
                \<lparr>field_name = ''Decision Date'',
                 field_value = timestampLong,
                 field_inline = Some True\<rparr>]
               (setDescription
                 (if st = Approved then approved_description else denied_description)
                 (setTitle ''Whitelist Application Response'' embed0)) of
          Inl err \<Rightarrow> Inl err
        | Inr embed1 \<Rightarrow>
        case (if truthy rsn
              then addFields
                     [\<lparr>field_name = (if st = Approved then ''Staff Note'' else ''Reason''),
                       field_value = the rsn,
                       field_inline = Some False\<rparr>]
                     embed1
              else Inr embed1) of
          Inl err \<Rightarrow> Inl err
        | Inr embed2 \<Rightarrow>
        case setFooter \<lparr>footer_text = footerText cfg, footer_iconURL = serverIcon cfg\<rparr> embed2 of
          Inl err \<Rightarrow> Inl err
        | Inr embed3 \<Rightarrow>
            (if st = Approved
             then addFields
                    [\<lparr>field_name = ''Important Information'',
                      field_value = important_information,
                      field_inline = None\<rparr>]
                    (setTimestamp now2 embed3)
             else Inr (setTimestamp now2 embed3)))"

text \<open>
  Two readings of a composed embed: the fields that carry the reason given by staff, and the
  supplementary fields.
\<close>

definition reason_fields :: "embed \<Rightarrow> embed_field list" where
  "reason_fields e =
     filter (\<lambda>f. field_name f = ''Staff Note'' \<or> field_name f = ''Reason'') (embed_fields e)"

definition info_fields :: "embed \<Rightarrow> embed_field list" where
  "info_fields e = filter (\<lambda>f. field_name f = ''Important Information'') (embed_fields e)"

text \<open>
  Branding strings that the builder accepts, and the range of the clock: a time value of
  JavaScript is at most 8.64e15 milliseconds.
\<close>

definition valid_branding :: "discordBot_config \<Rightarrow> bool" where
  "valid_branding cfg = (within 256 (serverName cfg) \<and> within 2048 (footerText cfg))"

definition time_value :: "nat \<Rightarrow> bool" where
  "time_value t = (t \<le> 8640000000000000)"

subsection \<open>The module state\<close>

text \<open>
  \<^verbatim>\<open>new Client({ intents: [Guilds, DirectMessages] })\<close>: the session object, with the
  intents it was built with.
\<close>

datatype gateway_intent = Guilds | DirectMessages

datatype client_t = Client (intents: "gateway_intent list")

text \<open>
  The three module variables and, beside them, the module's dealings with the runtime:
  \<^item> \<open>now\<close>: the clock, in milliseconds (\<^verbatim>\<open>Date.now()\<close>);
  \<^item> \<open>timeouts\<close>: the due times of the pending
    \<^verbatim>\<open>setTimeout(() => processMessageQueue(), d)\<close> calls, in the order they were made;
  \<^item> \<open>intervals\<close>: the periods of the \<^verbatim>\<open>setInterval\<close> timers armed;
  \<^item> \<open>logins\<close>: the tokens passed to \<^verbatim>\<open>client.login\<close>, one entry per call;
  \<^item> \<open>sends\<close>: the send attempts, one entry for each call of \<^verbatim>\<open>sendDirectMessageInternal\<close>
    that finds a client: the recipient and what the composer gave, either the embed, which
    the call then sends (\<^verbatim>\<open>client.users.fetch(userId)\<close>, then
    \<^verbatim>\<open>user.send({ embeds: [embed] })\<close>), or the error it threw, after which the call
    asks nothing of the platform.
\<close>

record bot =
  client :: "client_t option"
  isReady :: bool
  messageQueue :: "message list"
  now :: nat
  timeouts :: "nat list"
  intervals :: "nat list"
  logins :: "string list"
  sends :: "(string \<times> (send_error + embed)) list"

text \<open>The module as loaded, at time \<open>t\<close>.\<close>

definition initial_bot :: "nat \<Rightarrow> bot" where
  "initial_bot t =
     \<lparr>client = None, isReady = False, messageQueue = [], now = t,
      timeouts = [], intervals = [], logins = [], sends = []\<rparr>"

definition setTimeout :: "nat \<Rightarrow> bot \<Rightarrow> bot" where
  "setTimeout d s = s\<lparr>timeouts := timeouts s @ [now s + d]\<rparr>"

definition setInterval :: "nat \<Rightarrow> bot \<Rightarrow> bot" where
  "setInterval p s = s\<lparr>intervals := intervals s @ [p]\<rparr>"

text \<open>Time passing while nothing else runs.\<close>

definition sleep :: "nat \<Rightarrow> bot \<Rightarrow> bot" where
  "sleep d s = s\<lparr>now := now s + d\<rparr>"

subsection \<open>\<^verbatim>\<open>initializeDiscordBot\<close>\<close>

text \<open>
  The first argument is \<^verbatim>\<open>process.env.DISCORD_BOT_TOKEN\<close>; an unset and an empty variable
  are both falsy. The handlers that \<^verbatim>\<open>client.on\<close> registers are the functions \<open>on_ready\<close>,
  \<open>on_error\<close> and \<open>on_disconnect\<close> below.
\<close>

definition initializeDiscordBot :: "string option \<Rightarrow> bot \<Rightarrow> bot" where
  "initializeDiscordBot token s =
     (if \<not> truthy token then s
      else if client s \<noteq> None then s
      else s\<lparr>client := Some (Client [Guilds, DirectMessages]),
              logins := logins s @ [the token]\<rparr>)"

subsection \<open>\<^verbatim>\<open>sendDirectMessageInternal\<close>\<close>

text \<open>
  What the platform answers to one send attempt (the fetch of the user and the send, each
  raced against its 10 second timer), and the time the attempt takes.
\<close>

datatype send_outcome = Sent | Failed send_error

record world =
  outcome :: send_outcome
  took :: nat

text \<open>
  Lines 78 to 129, the synchronous start of the function: without a session it throws
  before it builds anything; otherwise it composes the embed, and throws what the builder
  throws. \<open>Inr\<close> means that the function has reached its \<^verbatim>\<open>try\<close> block and asked the
  platform for the user. The two clock reads of the composer fall in one synchronous
  stretch and read \<open>now\<close>.
\<close>

definition sendDirectMessageInternal_begin ::
  "discordBot_config \<Rightarrow> string \<Rightarrow> status \<Rightarrow> string option \<Rightarrow> bot
   \<Rightarrow> (send_error + unit) \<times> bot" where
  "sendDirectMessageInternal_begin cfg uid st rsn s =
     (if client s = None then (Inl Not_initialized, s)
      else
        let composed = composeEmbed cfg (now s) (now s) st rsn;
            s' = s\<lparr>sends := sends s @ [(uid, composed)]\<rparr>
        in (case composed of
              Inl e \<Rightarrow> (Inl e, s')
            | Inr _ \<Rightarrow> (Inr (), s')))"

text \<open>
  The whole function, when nothing else runs while it awaits the platform: it returns or
  rethrows as the platform answers.
\<close>

definition sendDirectMessageInternal ::
  "discordBot_config \<Rightarrow> world \<Rightarrow> string \<Rightarrow> status \<Rightarrow> string option \<Rightarrow> bot
   \<Rightarrow> (send_error + unit) \<times> bot" where
  "sendDirectMessageInternal cfg w uid st rsn s =
     (case sendDirectMessageInternal_begin cfg uid st rsn s of
        (Inl e, s') \<Rightarrow> (Inl e, s')
      | (Inr _, s') \<Rightarrow>
          (case outcome w of
             Sent \<Rightarrow> (Inr (), sleep (took w) s')
           | Failed e \<Rightarrow> (Inl e, sleep (took w) s')))"

subsection \<open>\<^verbatim>\<open>processMessageQueue\<close>\<close>

text \<open>
  The body of the \<^verbatim>\<open>catch\<close> block (lines 63 to 73), run with the queue as it is when the
  send has failed.
\<close>

definition processMessageQueue_catch :: "message \<Rightarrow> bot \<Rightarrow> bot" where
  "processMessageQueue_catch message s =
     (if retries message < 3 then
        let message' = message\<lparr>retries := retries message + 1\<rparr>
        in setTimeout (5000 * retries message')
             (s\<lparr>messageQueue := message' # messageQueue s\<rparr>)
      else s)"

text \<open>
  One drain pass, from the guard to the pacing timer, with no other handler running
  while the send is awaited.
\<close>

definition processMessageQueue :: "discordBot_config \<Rightarrow> world \<Rightarrow> bot \<Rightarrow> bot" where
  "processMessageQueue cfg w s =
     (if \<not> isReady s \<or> length (messageQueue s) = 0 then s
      else
        (case messageQueue s of
           [] \<Rightarrow> s
         | message # rest \<Rightarrow>
             (case sendDirectMessageInternal cfg w (userId message) (status message)
                     (reason message) (s\<lparr>messageQueue := rest\<rparr>) of
                (Inr _, s') \<Rightarrow> setTimeout 1000 s'
              | (Inl e, s') \<Rightarrow> setTimeout 1000 (processMessageQueue_catch message s'))))"

subsection \<open>The handlers registered on the client, and the timers\<close>

text \<open>The \<^verbatim>\<open>'ready'\<close> handler (lines 24 to 34).\<close>

definition on_ready :: "discordBot_config \<Rightarrow> world \<Rightarrow> bot \<Rightarrow> bot" where
  "on_ready cfg w s = setInterval 30000 (processMessageQueue cfg w (s\<lparr>isReady := True\<rparr>))"

definition on_error :: "bot \<Rightarrow> bot" where
  "on_error s = s\<lparr>isReady := False\<rparr>"

definition on_disconnect :: "bot \<Rightarrow> bot" where
  "on_disconnect s = s\<lparr>isReady := False\<rparr>"

text \<open>The callback of the 30 second interval (lines 28 to 33).\<close>

definition interval_callback :: "discordBot_config \<Rightarrow> world \<Rightarrow> bot \<Rightarrow> bot" where
  "interval_callback cfg w s =
     (if isReady s \<and> length (messageQueue s) > 0 then processMessageQueue cfg w s else s)"

text \<open>
  The runtime firing the pending timeout that is due first (the one armed first among equal
  due times): the clock moves to its due time if it is not there yet, the timer is
  removed, and its callback, a drain pass, runs.
\<close>

definition next_due :: "bot \<Rightarrow> nat" where
  "next_due s = Min (set (timeouts s))"

definition fire_timeout :: "discordBot_config \<Rightarrow> world \<Rightarrow> bot \<Rightarrow> bot" where
  "fire_timeout cfg w s =
     (if timeouts s = [] then s
      else processMessageQueue cfg w
             (s\<lparr>timeouts := remove1 (next_due s) (timeouts s),
                now := max (now s) (next_due s)\<rparr>))"

subsection \<open>Events\<close>

text \<open>
  What the runtime can deliver to the module between two of its own steps: an event of the
  client, to the handler registered for it (there is none without a client), a timeout
  that is due, or a tick of the interval. Each comes with the answer of the platform to
  the send it may start.
\<close>

datatype event =
    Ev_ready world
  | Ev_error
  | Ev_disconnect
  | Ev_timeout world
  | Ev_interval world

definition handle :: "discordBot_config \<Rightarrow> event \<Rightarrow> bot \<Rightarrow> bot" where
  "handle cfg ev s =
     (case ev of
        Ev_ready w \<Rightarrow> (if client s = None then s else on_ready cfg w s)
      | Ev_error \<Rightarrow> (if client s = None then s else on_error s)
      | Ev_disconnect \<Rightarrow> (if client s = None then s else on_disconnect s)
      | Ev_timeout w \<Rightarrow> fire_timeout cfg w s
      | Ev_interval w \<Rightarrow> (if intervals s = [] then s else interval_callback cfg w s))"

definition run :: "discordBot_config \<Rightarrow> event list \<Rightarrow> bot \<Rightarrow> bot" where
  "run cfg evs s = fold (handle cfg) evs s"

subsection \<open>Drain passes as the runtime schedules them\<close>

text \<open>
  A pass stops at the \<^verbatim>\<open>await\<close> of line 61 and goes on when its send has settled, and
  nothing keeps another pass from starting in between: the timers armed by earlier passes,
  the interval, the \<^verbatim>\<open>'ready'\<close> handler and \<^verbatim>\<open>forceProcessQueue\<close> all call
  \<^verbatim>\<open>processMessageQueue\<close> whether or not a send is under way. A running module is its state
  together with the messages of the passes that await their send, in the order they
  started.
\<close>

type_synonym running = "bot \<times> message list"

text \<open>
  Lines 53 to 61, up to the \<^verbatim>\<open>await\<close>: the guard, the shift and the start of the send. When
  the send throws before it asks the platform, the \<^verbatim>\<open>catch\<close> block and the pacing timer
  follow at once.
\<close>

definition processMessageQueue_begin :: "discordBot_config \<Rightarrow> running \<Rightarrow> running" where
  "processMessageQueue_begin cfg r =
     (if \<not> isReady (fst r) \<or> length (messageQueue (fst r)) = 0 then r
      else
        (case messageQueue (fst r) of
           [] \<Rightarrow> r
         | message # rest \<Rightarrow>
             (case sendDirectMessageInternal_begin cfg (userId message) (status message)
                     (reason message) ((fst r)\<lparr>messageQueue := rest\<rparr>) of
                (Inl e, s') \<Rightarrow> (setTimeout 1000 (processMessageQueue_catch message s'), snd r)
              | (Inr _, s') \<Rightarrow> (s', snd r @ [message]))))"

text \<open>
  Lines 62 to 74: the send of the \<open>k\<close>-th waiting pass has settled, with the platform's
  answer \<open>out\<close>.
\<close>

definition processMessageQueue_end :: "nat \<Rightarrow> send_outcome \<Rightarrow> running \<Rightarrow> running" where
  "processMessageQueue_end k out r =
     (if k < length (snd r) then
        (case out of
           Sent \<Rightarrow> (setTimeout 1000 (fst r), take k (snd r) @ drop (Suc k) (snd r))
         | Failed e \<Rightarrow>
             (setTimeout 1000 (processMessageQueue_catch (snd r ! k) (fst r)),
              take k (snd r) @ drop (Suc k) (snd r)))
      else r)"

text \<open>
  The steps of a running module that touch the queue or the readiness flag: a pass begins
  (whatever called it), a send settles, the client becomes ready or stops being so (an
  error, a disconnect), a call of \<^verbatim>\<open>sendDirectMessage\<close> pushes a message, time passes.
\<close>

datatype step =
    Begin
  | End nat send_outcome
  | Ready bool
  | Push message
  | Wait nat

definition step :: "discordBot_config \<Rightarrow> step \<Rightarrow> running \<Rightarrow> running" where
  "step cfg x r =
     (case x of
        Begin \<Rightarrow> processMessageQueue_begin cfg r
      | End k out \<Rightarrow> processMessageQueue_end k out r
      | Ready b \<Rightarrow> ((fst r)\<lparr>isReady := b\<rparr>, snd r)
      | Push m \<Rightarrow> ((fst r)\<lparr>messageQueue := messageQueue (fst r) @ [m]\<rparr>, snd r)
      | Wait d \<Rightarrow> (sleep d (fst r), snd r))"

text \<open>A schedule of such steps, run from left to right.\<close>

definition drain :: "discordBot_config \<Rightarrow> step list \<Rightarrow> running \<Rightarrow> running" where
  "drain cfg steps r = fold (step cfg) steps r"

text \<open>
  A pass that nothing overlaps, its send taking \<open>d\<close> milliseconds, and a sequence of such
  passes.
\<close>

definition pass :: "nat \<times> send_outcome \<Rightarrow> step list" where
  "pass p = [Begin, Wait (fst p), End 0 (snd p)]"

definition passes :: "(nat \<times> send_outcome) list \<Rightarrow> step list" where
  "passes ps = concat (map pass ps)"

text \<open>
  The place of the messages for one recipient in a running module: those queued, those
  awaiting their send, and the send attempts made for that recipient so far.
\<close>

definition for_user :: "string \<Rightarrow> message list \<Rightarrow> message list" where
  "for_user u ms = filter (\<lambda>m. userId m = u) ms"

definition attempts_of :: "string \<Rightarrow> bot \<Rightarrow> nat" where
  "attempts_of u s = length (filter (\<lambda>p. fst p = u) (sends s))"

text \<open>
  A schedule pushes no message for \<open>u\<close>; and every send for \<open>u\<close> that settles in the course
  of a schedule fails.
\<close>

definition no_push :: "string \<Rightarrow> step list \<Rightarrow> bool" where
  "no_push u steps = list_all (\<lambda>x. case x of Push m \<Rightarrow> userId m \<noteq> u | _ \<Rightarrow> True) steps"

fun always_fails :: "discordBot_config \<Rightarrow> string \<Rightarrow> step list \<Rightarrow> running \<Rightarrow> bool" where
  "always_fails cfg u [] r = True"
| "always_fails cfg u (x # xs) r =
     ((case x of
         End k out \<Rightarrow> (k < length (snd r) \<and> userId (snd r ! k) = u \<longrightarrow> out \<noteq> Sent)
       | _ \<Rightarrow> True) \<and>
      always_fails cfg u xs (step cfg x r))"

text \<open>
  Where one message for \<open>u\<close>, counted from \<open>n0\<close> send attempts, can be: queued with \<open>k\<close>
  retries after \<open>k\<close> attempts, awaiting the send of attempt \<open>k + 1\<close>, or gone after at most
  four attempts, exactly four when no attempt succeeded (\<open>failing\<close>).
\<close>

definition tracked :: "string \<Rightarrow> nat \<Rightarrow> bool \<Rightarrow> running \<Rightarrow> bool" where
  "tracked u n0 failing r =
     (case (map retries (for_user u (messageQueue (fst r))), map retries (for_user u (snd r))) of
        ([k], []) \<Rightarrow> k \<le> 3 \<and> attempts_of u (fst r) = n0 + k
      | ([], [k]) \<Rightarrow> k \<le> 3 \<and> attempts_of u (fst r) = n0 + k + 1
      | ([], []) \<Rightarrow>
          attempts_of u (fst r) \<le> n0 + 4 \<and> (failing \<longrightarrow> attempts_of u (fst r) = n0 + 4)
      | _ \<Rightarrow> False)"


subsection \<open>\<^verbatim>\<open>sendDirectMessage\<close>, \<^verbatim>\<open>getBotStatus\<close>, \<^verbatim>\<open>forceProcessQueue\<close>\<close>

text \<open>
  Lines 167 to 171: without a session, initialise and wait one second. \<open>evs\<close> are the
  events delivered during that wait (none when a session exists: there is no wait).
\<close>

definition sendDirectMessage_init ::
  "string option \<Rightarrow> discordBot_config \<Rightarrow> event list \<Rightarrow> bot \<Rightarrow> bot" where
  "sendDirectMessage_init token cfg evs s =
     (if client s = None then
        (let s' = run cfg evs (initializeDiscordBot token s)
         in s'\<lparr>now := max (now s') (now s + 1000)\<rparr>)
      else s)"

text \<open>
  Lines 173 to 186: queue the message when the bot is not ready, else try to send it now
  and queue it when that throws. The declared result is \<^verbatim>\<open>Promise<void>\<close>: the function
  returns no value, and \<open>Inl\<close> would be an exception reaching the caller.
\<close>

definition sendDirectMessage_deliver ::
  "discordBot_config \<Rightarrow> world \<Rightarrow> string \<Rightarrow> status \<Rightarrow> string option \<Rightarrow> bot
   \<Rightarrow> (send_error + unit) \<times> bot" where
  "sendDirectMessage_deliver cfg w uid st rsn s =
     (if \<not> isReady s then
        (Inr (),
         s\<lparr>messageQueue :=
             messageQueue s @ [\<lparr>userId = uid, status = st, reason = rsn, retries = 0\<rparr>]\<rparr>)
      else
        (case sendDirectMessageInternal cfg w uid st rsn s of
           (Inr _, s') \<Rightarrow> (Inr (), s')
         | (Inl e, s') \<Rightarrow>
             (Inr (),
              s'\<lparr>messageQueue :=
                  messageQueue s' @
                  [\<lparr>userId = uid, status = st, reason = rsn, retries = 0\<rparr>]\<rparr>)))"

text \<open>One call: the token of the environment, the events of the wait, the answer to the send.\<close>

definition sendDirectMessage ::
  "string option \<Rightarrow> discordBot_config \<Rightarrow> event list \<Rightarrow> world
   \<Rightarrow> string \<Rightarrow> status \<Rightarrow> string option \<Rightarrow> bot \<Rightarrow> (send_error + unit) \<times> bot" where
  "sendDirectMessage token cfg evs w uid st rsn s =
     sendDirectMessage_deliver cfg w uid st rsn (sendDirectMessage_init token cfg evs s)"

text \<open>A sequence of calls, each finished before the next begins.\<close>

record call =
  call_events :: "event list"
  call_world :: world
  call_userId :: string
  call_status :: status
  call_reason :: "string option"

definition queued :: "call \<Rightarrow> message" where
  "queued c =
     \<lparr>userId = call_userId c, status = call_status c, reason = call_reason c, retries = 0\<rparr>"

fun sendDirectMessages ::
  "string option \<Rightarrow> discordBot_config \<Rightarrow> call list \<Rightarrow> bot \<Rightarrow> (send_error + unit) list \<times> bot" where
  "sendDirectMessages token cfg [] s = ([], s)"
| "sendDirectMessages token cfg (c # cs) s =
     (let (r, s') = sendDirectMessage token cfg (call_events c) (call_world c)
                      (call_userId c) (call_status c) (call_reason c) s;
          (rs, s'') = sendDirectMessages token cfg cs s'
      in (r # rs, s''))"

text \<open>\<^verbatim>\<open>getBotStatus\<close>, without the tag of the logged-in user.\<close>

record bot_status =
  initialized :: bool
  ready :: bool
  queueLength :: nat

definition getBotStatus :: "bot \<Rightarrow> bot_status" where
  "getBotStatus s =
     \<lparr>initialized = (client s \<noteq> None), ready = isReady s,
      queueLength = length (messageQueue s)\<rparr>"

definition forceProcessQueue :: "discordBot_config \<Rightarrow> world \<Rightarrow> bot \<Rightarrow> bot" where
  "forceProcessQueue cfg w s = (if isReady s then processMessageQueue cfg w s else s)"

subsection \<open>Sample values\<close>

text \<open>A bot that has logged in and become ready at time \<open>t\<close>, with \<open>q\<close> in its queue.\<close>

definition ready_bot :: "nat \<Rightarrow> message list \<Rightarrow> bot" where
  "ready_bot t q =
     (initial_bot t)\<lparr>client := Some (Client [Guilds, DirectMessages]), isReady := True,
        messageQueue := q, intervals := [30000], logins := [''token'']\<rparr>"

definition u3 :: message where
  "u3 = \<lparr>userId = ''u3'', status = Denied, reason = Some ''Incomplete answers'', retries = 0\<rparr>"

definition u4 :: message where
  "u4 = \<lparr>userId = ''u4'', status = Approved, reason = None, retries = 0\<rparr>"

definition timed_out :: world where
  "timed_out = \<lparr>outcome = Failed User_fetch_timeout, took = 10000\<rparr>"

definition delivered :: world where
  "delivered = \<lparr>outcome = Sent, took = 80\<rparr>"

definition two_calls :: "call list" where
  "two_calls =
     [\<lparr>call_events = [], call_world = delivered, call_userId = ''u1'',
       call_status = Approved, call_reason = None\<rparr>,
      \<lparr>call_events = [Ev_ready delivered, Ev_timeout delivered, Ev_interval delivered],
       call_world = delivered, call_userId = ''u2'',
       call_status = Denied, call_reason = Some ''Too short''\<rparr>]"

text \<open>A reason of 1025 characters.\<close>

definition long_reason :: string where
  "long_reason = replicate 1025 CHR ''a''"

text \<open>Four passes whose sends fail, and a schedule in which passes overlap.\<close>

definition four_failing :: "(nat \<times> send_outcome) list" where
  "four_failing =
     [(10000, Failed User_fetch_timeout),
      (40, Failed (Api_error ''Missing Permissions'')),
      (10000, Failed Message_send_timeout),
      (60, Failed User_not_found)]"


section \<open>Properties\<close>

subsection \<open>Lengths\<close>

lemmas js_length_defs = js_length_def continuation_def lead4_def

lemma js_length_append: "js_length (a @ b) = js_length a + js_length b"
  by (simp add: js_length_def)

lemma js_length_ascii:
  "\<forall>c \<in> set t. \<not> continuation c \<and> \<not> lead4 c \<Longrightarrow> js_length t = length t"
  by (induction t) (simp_all add: js_length_def)

lemma digit_char_ascii: "d < 10 \<Longrightarrow> \<not> continuation (digit_char d) \<and> \<not> lead4 (digit_char d)"
proof -
  assume "d < 10"
  then have "digit_char d \<in> set ''0123456789''"
    unfolding digit_char_def by (intro nth_mem) simp
  then show ?thesis
    by (auto simp add: continuation_def lead4_def)
qed

lemma digits_ascii: "\<forall>c \<in> set (digits n). \<not> continuation c \<and> \<not> lead4 c"
proof (induction n rule: digits.induct)
  case (1 n)
  show ?case
  proof (cases "n < 10")
    case True
    then show ?thesis
      by (subst digits.simps) (simp add: digit_char_ascii)
  next
    case False
    then show ?thesis
      using "1.IH" by (subst digits.simps) (simp add: digit_char_ascii)
  qed
qed

lemma length_digits: "n < 10 ^ k \<Longrightarrow> 1 \<le> k \<Longrightarrow> length (digits n) \<le> k"
proof (induction n arbitrary: k rule: digits.induct)
  case (1 n)
  show ?case
  proof (cases "n < 10")
    case True
    then show ?thesis
      using "1.prems"(2) by (subst digits.simps) simp
  next
    case False
    then obtain j where k: "k = Suc j"
      using "1.prems"(2) by (cases k) simp_all
    from False "1.prems"(1) have "1 \<le> j"
      by (cases j) (simp_all add: k)
    moreover from "1.prems"(1) have "n div 10 < 10 ^ j"
      by (simp add: k less_mult_imp_div_less mult.commute)
    ultimately have "length (digits (n div 10)) \<le> j"
      using False by (intro "1.IH") simp_all
    then show ?thesis
      using False by (subst digits.simps) (simp add: k)
  qed
qed

lemma decision_date_within:
  assumes "time_value t"
  shows "within 1024 (''<t:'' @ digits (t div 1000) @ '':F>'')"
proof -
  have "t div 1000 < 10 ^ 16"
    using assms by (simp add: time_value_def)
  then have "length (digits (t div 1000)) \<le> 16"
    by (rule length_digits) simp
  moreover have "js_length (digits (t div 1000)) = length (digits (t div 1000))"
    by (rule js_length_ascii) (rule digits_ascii)
  ultimately show ?thesis
    by (simp add: within_def js_length_append) (simp add: js_length_defs)
qed

lemma valid_branding_applicationConfig: "valid_branding applicationConfig"
  by (simp add: valid_branding_def within_def applicationConfig_def js_length_defs)

lemma long_reason_length: "long_reason \<noteq> [] \<and> js_length long_reason = 1025"
  by (simp add: long_reason_def js_length_defs)

subsection \<open>The composer\<close>

lemmas builder_defs =
  new_EmbedBuilder_def setColor_def setAuthor_def setTitle_def setDescription_def
  addFields_def setFooter_def setTimestamp_def valid_field_def

lemma constant_texts_within:
  "within 256 ''Application Status''" "within 256 ''Decision Date''"
  "within 256 ''Staff Note''" "within 256 ''Reason''" "within 256 ''Important Information''"
  "within 1024 accepted_value" "within 1024 denied_value" "within 1024 important_information"
  by (simp_all add: within_def js_length_defs accepted_value_def denied_value_def
      important_information_def)

text \<open>
  What the composer gives: it throws when the builder refuses the branding, the decision
  date or the reason, and else gives the embed with every part set.
\<close>

lemma composeEmbed_eq:
  "composeEmbed cfg n1 n2 st rsn =
     (if valid_branding cfg \<and> within 1024 (''<t:'' @ digits (n1 div 1000) @ '':F>'') \<and>
         (truthy rsn \<longrightarrow> js_length (the rsn) \<le> 1024)
      then Inr
        \<lparr>color = Some (if st = Approved then ''#00FF00'' else ''#FF0000''),
         author = Some \<lparr>author_name = serverName cfg, author_iconURL = serverIcon cfg\<rparr>,
         title = Some ''Whitelist Application Response'',
         description = Some (if st = Approved then approved_description else denied_description),
         embed_fields =
           [\<lparr>field_name = ''Application Status'',
             field_value = (if st = Approved then accepted_value else denied_value),
             field_inline = Some True\<rparr>,
            \<lparr>field_name = ''Decision Date'',
             field_value = ''<t:'' @ digits (n1 div 1000) @ '':F>'',
             field_inline = Some True\<rparr>] @
           (if truthy rsn
            then [\<lparr>field_name = (if st = Approved then ''Staff Note'' else ''Reason''),
                   field_value = the rsn, field_inline = Some False\<rparr>]
            else []) @
           (if st = Approved
            then [\<lparr>field_name = ''Important Information'',
                   field_value = important_information, field_inline = None\<rparr>]
            else []),
         footer = Some \<lparr>footer_text = footerText cfg, footer_iconURL = serverIcon cfg\<rparr>,
         timestamp = (if n2 = 0 then None else Some n2)\<rparr>
      else Inl Validation_error)"
proof -
  have reason_within: "within 1024 (the rsn) \<longleftrightarrow> js_length (the rsn) \<le> 1024" if "truthy rsn"
    using that by (cases rsn) (simp_all add: truthy_def within_def)
  show ?thesis
    by (cases st; cases "truthy rsn")
      (auto simp add: composeEmbed_def Let_def builder_defs valid_branding_def
        constant_texts_within reason_within)
qed

lemma composeEmbed_Inr_fields:
  assumes "composeEmbed cfg n1 n2 st rsn = Inr e"
  shows "color e = Some (if st = Approved then ''#00FF00'' else ''#FF0000'')"
    and "reason_fields e =
           (if truthy rsn
            then [\<lparr>field_name = (if st = Approved then ''Staff Note'' else ''Reason''),
                   field_value = the rsn, field_inline = Some False\<rparr>]
            else [])"
    and "info_fields e =
           (if st = Approved
            then [\<lparr>field_name = ''Important Information'',
                   field_value = important_information, field_inline = None\<rparr>]
            else [])"
  using assms
  by (auto simp add: composeEmbed_eq reason_fields_def info_fields_def split: if_splits)

lemma composeEmbed_composes:
  assumes "valid_branding cfg" and "time_value n1"
    and "truthy rsn \<longrightarrow> js_length (the rsn) \<le> 1024"
  shows "\<exists>e. composeEmbed cfg n1 n2 st rsn = Inr e"
  using assms decision_date_within [of n1] by (simp add: composeEmbed_eq)

lemma composeEmbed_throws:
  assumes "truthy rsn" and "1024 < js_length (the rsn)"
  shows "composeEmbed cfg n1 n2 st rsn = Inl Validation_error"
  using assms by (simp add: composeEmbed_eq)

text \<open>
  C7, as stated, fails: a reason that is present but empty gets no field, for a denial
  and for an approval alike, because \<^verbatim>\<open>if (reason)\<close> tests truthiness.
\<close>

theorem composeEmbed_empty_reason_no_field:
  "map_sum id reason_fields
     (composeEmbed applicationConfig 1730570000123 1730570000123 Denied (Some '''')) = Inr [] \<and>
   map_sum id reason_fields
     (composeEmbed applicationConfig 1730570000123 1730570000123 Approved (Some '''')) = Inr []"
proof -
  have "\<exists>e. composeEmbed applicationConfig 1730570000123 1730570000123 st (Some '''') = Inr e"
    for st
    by (rule composeEmbed_composes)
      (simp_all add: valid_branding_applicationConfig time_value_def truthy_def)
  then obtain d a where
    "composeEmbed applicationConfig 1730570000123 1730570000123 Denied (Some '''') = Inr d"
    "composeEmbed applicationConfig 1730570000123 1730570000123 Approved (Some '''') = Inr a"
    by blast
  then show ?thesis
    by (simp add: composeEmbed_Inr_fields(2) truthy_def)
qed

text \<open>
  C7, amended: in every payload that is composed, the colour is green for an approval and
  red for a denial; a reason that is present and not empty gives exactly one extra field,
  labelled "Staff Note" for an approval and "Reason" for a denial, holding the reason; an
  absent or empty reason gives no such field; and only approvals carry the "Important
  Information" field.
\<close>

theorem composeEmbed_colour_and_fields:
  assumes "composeEmbed cfg n1 n2 st rsn = Inr e"
  shows "color e = Some (if st = Approved then ''#00FF00'' else ''#FF0000'') \<and>
         (\<forall>r. rsn = Some r \<and> r \<noteq> [] \<longrightarrow>
            reason_fields e =
              [\<lparr>field_name = (if st = Approved then ''Staff Note'' else ''Reason''),
                field_value = r, field_inline = Some False\<rparr>]) \<and>
         (rsn = None \<or> rsn = Some [] \<longrightarrow> reason_fields e = []) \<and>
         (info_fields e \<noteq> [] \<longleftrightarrow> st = Approved)"
  using composeEmbed_Inr_fields [OF assms] by (auto simp add: truthy_def)

theorem composeEmbed_colour_and_fields_witness:
  "map_sum id color
     (composeEmbed applicationConfig 1730570000123 1730570000123 Approved
        (Some ''Great application'')) = Inr (Some ''#00FF00'') \<and>
   map_sum id reason_fields
     (composeEmbed applicationConfig 1730570000123 1730570000123 Approved
        (Some ''Great application'')) =
     Inr [\<lparr>field_name = ''Staff Note'', field_value = ''Great application'',
           field_inline = Some False\<rparr>] \<and>
   map_sum id (\<lambda>e. info_fields e \<noteq> [])
     (composeEmbed applicationConfig 1730570000123 1730570000123 Approved
        (Some ''Great application'')) = Inr True \<and>
   map_sum id color
     (composeEmbed applicationConfig 1730570000123 1730570000123 Denied None) =
     Inr (Some ''#FF0000'') \<and>
   map_sum id reason_fields
     (composeEmbed applicationConfig 1730570000123 1730570000123 Denied None) = Inr [] \<and>
   map_sum id info_fields
     (composeEmbed applicationConfig 1730570000123 1730570000123 Denied None) = Inr []"
proof -
  have "\<exists>e. composeEmbed applicationConfig 1730570000123 1730570000123 Approved
               (Some ''Great application'') = Inr e"
    by (rule composeEmbed_composes)
      (simp_all add: valid_branding_applicationConfig time_value_def js_length_defs)
  then obtain a where a:
    "composeEmbed applicationConfig 1730570000123 1730570000123 Approved
       (Some ''Great application'') = Inr a"
    by blast
  have "\<exists>e. composeEmbed applicationConfig 1730570000123 1730570000123 Denied None = Inr e"
    by (rule composeEmbed_composes)
      (simp_all add: valid_branding_applicationConfig time_value_def truthy_def)
  then obtain d where d:
    "composeEmbed applicationConfig 1730570000123 1730570000123 Denied None = Inr d"
    by blast
  show ?thesis
    using composeEmbed_colour_and_fields [OF a] composeEmbed_colour_and_fields [OF d]
    by (simp add: a d)
qed

subsection \<open>A send attempt\<close>

lemma sendDirectMessageInternal_begin_client:
  "client s \<noteq> None \<Longrightarrow>
   sendDirectMessageInternal_begin cfg uid st rsn s =
     ((case composeEmbed cfg (now s) (now s) st rsn of Inl e \<Rightarrow> Inl e | Inr _ \<Rightarrow> Inr ()),
      s\<lparr>sends := sends s @ [(uid, composeEmbed cfg (now s) (now s) st rsn)]\<rparr>)"
  by (auto simp add: sendDirectMessageInternal_begin_def Let_def split: sum.splits)

lemma sendDirectMessageInternal_no_client:
  "client s = None \<Longrightarrow> sendDirectMessageInternal cfg w uid st rsn s = (Inl Not_initialized, s)"
  by (simp add: sendDirectMessageInternal_def sendDirectMessageInternal_begin_def)

lemma sendDirectMessageInternal_sends:
  "client s \<noteq> None \<Longrightarrow>
   sends (snd (sendDirectMessageInternal cfg w uid st rsn s)) =
     sends s @ [(uid, composeEmbed cfg (now s) (now s) st rsn)]"
  by (simp add: sendDirectMessageInternal_def sendDirectMessageInternal_begin_client sleep_def
      split: sum.splits send_outcome.splits)

lemma sendDirectMessageInternal_keeps:
  "messageQueue (snd (sendDirectMessageInternal cfg w uid st rsn s)) = messageQueue s"
  "timeouts (snd (sendDirectMessageInternal cfg w uid st rsn s)) = timeouts s"
  "isReady (snd (sendDirectMessageInternal cfg w uid st rsn s)) = isReady s"
  "client (snd (sendDirectMessageInternal cfg w uid st rsn s)) = client s"
  "logins (snd (sendDirectMessageInternal cfg w uid st rsn s)) = logins s"
  "now (snd (sendDirectMessageInternal cfg w uid st rsn s)) \<le> now s + took w"
  by (simp_all add: sendDirectMessageInternal_def sendDirectMessageInternal_begin_def Let_def
      sleep_def split: sum.splits send_outcome.splits)

lemma sendDirectMessageInternal_returns:
  "fst (sendDirectMessageInternal cfg w uid st rsn s) = Inr () \<longleftrightarrow>
     client s \<noteq> None \<and> \<not> isl (composeEmbed cfg (now s) (now s) st rsn) \<and> outcome w = Sent"
  by (auto simp add: sendDirectMessageInternal_def sendDirectMessageInternal_begin_def Let_def
      split: sum.splits send_outcome.splits)

lemma sendDirectMessageInternal_failed:
  "outcome w \<noteq> Sent \<Longrightarrow> \<exists>e. fst (sendDirectMessageInternal cfg w uid st rsn s) = Inl e"
  by (cases "fst (sendDirectMessageInternal cfg w uid st rsn s)")
    (simp_all add: sendDirectMessageInternal_returns)




subsection \<open>Initialisation\<close>

lemma initializeDiscordBot_session:
  "client s \<noteq> None \<Longrightarrow> initializeDiscordBot token s = s"
  by (simp add: initializeDiscordBot_def)

lemma initializeDiscordBot_funpow_session:
  "client s \<noteq> None \<Longrightarrow> (initializeDiscordBot token ^^ n) s = s"
  by (induction n) (simp_all add: initializeDiscordBot_session)

lemma initializeDiscordBot_twice:
  "initializeDiscordBot token (initializeDiscordBot token s) = initializeDiscordBot token s"
  by (simp add: initializeDiscordBot_def)

text \<open>
  C8: with a session present, \<open>n \<ge> 1\<close> calls of \<^verbatim>\<open>initializeDiscordBot\<close> leave the state that
  one call leaves; the session is the one that was there and no login is added.
\<close>

theorem initialize_idempotent:
  assumes "client s = Some c" and "1 \<le> n"
  shows "(initializeDiscordBot token ^^ n) s = initializeDiscordBot token s \<and>
         client ((initializeDiscordBot token ^^ n) s) = Some c \<and>
         logins ((initializeDiscordBot token ^^ n) s) = logins s"
  using assms by (simp add: initializeDiscordBot_funpow_session initializeDiscordBot_session)

theorem initialize_idempotent_witness:
  "(initializeDiscordBot (Some ''token'') ^^ 3)
     (initializeDiscordBot (Some ''token'') (initial_bot 0)) =
     initializeDiscordBot (Some ''token'') (initial_bot 0) \<and>
   client ((initializeDiscordBot (Some ''token'') ^^ 3)
             (initializeDiscordBot (Some ''token'') (initial_bot 0))) =
     Some (Client [Guilds, DirectMessages]) \<and>
   logins ((initializeDiscordBot (Some ''token'') ^^ 3)
             (initializeDiscordBot (Some ''token'') (initial_bot 0))) = [''token'']"
  using initialize_idempotent
    [of "initializeDiscordBot (Some ''token'') (initial_bot 0)"
        "Client [Guilds, DirectMessages]" 3 "Some ''token''"]
  by (simp add: initializeDiscordBot_def initial_bot_def truthy_def)

subsection \<open>Drain passes\<close>

lemmas sample_defs =
  ready_bot_def initial_bot_def u3_def u4_def timed_out_def delivered_def two_calls_def

lemma processMessageQueue_idle:
  "\<not> isReady s \<or> messageQueue s = [] \<Longrightarrow> processMessageQueue cfg w s = s"
  by (auto simp add: processMessageQueue_def)

lemma processMessageQueue_thrown:
  assumes "isReady s" and "messageQueue s = m # rest"
    and "sendDirectMessageInternal cfg w (userId m) (status m) (reason m)
           (s\<lparr>messageQueue := rest\<rparr>) = (Inl e, s')"
  shows "processMessageQueue cfg w s = setTimeout 1000 (processMessageQueue_catch m s')"
  using assms by (simp add: processMessageQueue_def)

lemma processMessageQueue_returned:
  assumes "isReady s" and "messageQueue s = m # rest"
    and "sendDirectMessageInternal cfg w (userId m) (status m) (reason m)
           (s\<lparr>messageQueue := rest\<rparr>) = (Inr x, s')"
  shows "processMessageQueue cfg w s = setTimeout 1000 s'"
  using assms by (simp add: processMessageQueue_def)

text \<open>The catch block, whatever the queue holds when the send has failed.\<close>

lemma processMessageQueue_catch_retry:
  assumes "retries m < 3"
  shows "messageQueue (processMessageQueue_catch m s) =
           m\<lparr>retries := retries m + 1\<rparr> # messageQueue s"
    and "timeouts (processMessageQueue_catch m s) =
           timeouts s @ [now s + 5000 * (retries m + 1)]"
  using assms by (simp_all add: processMessageQueue_catch_def Let_def setTimeout_def)

lemma processMessageQueue_catch_give_up:
  "\<not> retries m < 3 \<Longrightarrow> processMessageQueue_catch m s = s"
  by (simp add: processMessageQueue_catch_def)

lemma processMessageQueue_catch_keeps:
  "now (processMessageQueue_catch m s) = now s"
  "sends (processMessageQueue_catch m s) = sends s"
  "isReady (processMessageQueue_catch m s) = isReady s"
  "client (processMessageQueue_catch m s) = client s"
  by (simp_all add: processMessageQueue_catch_def Let_def setTimeout_def)

lemma setTimeout_fields:
  "messageQueue (setTimeout d s) = messageQueue s"
  "timeouts (setTimeout d s) = timeouts s @ [now s + d]"
  "now (setTimeout d s) = now s"
  "sends (setTimeout d s) = sends s"
  "isReady (setTimeout d s) = isReady s"
  "client (setTimeout d s) = client s"
  by (simp_all add: setTimeout_def)

text \<open>A pass that gets past its guard with a client makes one send attempt, for the head.\<close>

lemma processMessageQueue_sends:
  assumes "isReady s" and "messageQueue s = m # rest" and "client s \<noteq> None"
  shows "sends (processMessageQueue cfg w s) =
           sends s @ [(userId m, composeEmbed cfg (now s) (now s) (status m) (reason m))]"
proof -
  let ?s0 = "s\<lparr>messageQueue := rest\<rparr>"
  obtain r s1 where call:
    "sendDirectMessageInternal cfg w (userId m) (status m) (reason m) ?s0 = (r, s1)"
    by (cases "sendDirectMessageInternal cfg w (userId m) (status m) (reason m) ?s0")
  have "sends s1 = sends s @ [(userId m, composeEmbed cfg (now s) (now s) (status m) (reason m))]"
    using sendDirectMessageInternal_sends [of ?s0 cfg w "userId m" "status m" "reason m"] assms(3)
    by (simp add: call)
  then show ?thesis
    using assms(1,2) call
    by (cases r)
      (simp_all add: processMessageQueue_def setTimeout_fields processMessageQueue_catch_keeps)
qed

text \<open>
  C2: when the send of a drain pass fails for an item with fewer than three retries, the
  pass ends with the item back at the head of the queue, in front of everything else that
  is queued, its retry count one higher, and with a timeout for a further drain pass due
  5000 ms times the new retry count after the end of the pass. The catch block puts the
  item in front of whatever the queue holds when it runs.
\<close>

theorem retry_on_failure:
  assumes "isReady s" and "messageQueue s = m # rest"
    and "fst (sendDirectMessageInternal cfg w (userId m) (status m) (reason m)
               (s\<lparr>messageQueue := rest\<rparr>)) = Inl e"
    and "retries m < 3"
  shows "messageQueue (processMessageQueue cfg w s) = m\<lparr>retries := retries m + 1\<rparr> # rest \<and>
         retries (hd (messageQueue (processMessageQueue cfg w s))) = retries m + 1 \<and>
         now (processMessageQueue cfg w s) +
           5000 * retries (hd (messageQueue (processMessageQueue cfg w s)))
           \<in> set (drop (length (timeouts s)) (timeouts (processMessageQueue cfg w s))) \<and>
         messageQueue (processMessageQueue_catch m s') =
           m\<lparr>retries := retries m + 1\<rparr> # messageQueue s'"
proof -
  let ?s0 = "s\<lparr>messageQueue := rest\<rparr>"
  obtain s1 where thrown:
    "sendDirectMessageInternal cfg w (userId m) (status m) (reason m) ?s0 = (Inl e, s1)"
    using assms(3)
    by (cases "sendDirectMessageInternal cfg w (userId m) (status m) (reason m) ?s0") simp
  have s1: "messageQueue s1 = rest" "timeouts s1 = timeouts s"
    using sendDirectMessageInternal_keeps(1,2) [of cfg w "userId m" "status m" "reason m" ?s0]
    by (simp_all add: thrown)
  have pass: "processMessageQueue cfg w s = setTimeout 1000 (processMessageQueue_catch m s1)"
    using assms(1,2) thrown by (rule processMessageQueue_thrown)
  show ?thesis
    using assms(4) s1
    by (simp add: pass setTimeout_fields processMessageQueue_catch_retry
        processMessageQueue_catch_keeps)
qed

theorem retry_on_failure_witness:
  "messageQueue (processMessageQueue applicationConfig timed_out (ready_bot 0 [u3, u4])) =
     [u3\<lparr>retries := 1\<rparr>, u4] \<and>
   now (processMessageQueue applicationConfig timed_out (ready_bot 0 [u3, u4])) + 5000
     \<in> set (timeouts (processMessageQueue applicationConfig timed_out (ready_bot 0 [u3, u4])))"
proof -
  have "\<exists>e. fst (sendDirectMessageInternal applicationConfig timed_out (userId u3) (status u3)
                   (reason u3) ((ready_bot 0 [u3, u4])\<lparr>messageQueue := [u4]\<rparr>)) = Inl e"
    by (rule sendDirectMessageInternal_failed) (simp add: timed_out_def)
  then obtain e where
    "fst (sendDirectMessageInternal applicationConfig timed_out (userId u3) (status u3)
            (reason u3) ((ready_bot 0 [u3, u4])\<lparr>messageQueue := [u4]\<rparr>)) = Inl e"
    by blast
  from retry_on_failure [of "ready_bot 0 [u3, u4]" u3 "[u4]", OF _ _ this, of "ready_bot 0 [u4]"]
  show ?thesis
    by (auto simp add: sample_defs)
qed

text \<open>Every pass that gets past its guard ends by arming the pacing timeout.\<close>

lemma processMessageQueue_pacing:
  assumes "isReady s" and "messageQueue s \<noteq> []"
  shows "timeouts (processMessageQueue cfg w s) \<noteq> [] \<and>
         last (timeouts (processMessageQueue cfg w s)) = now (processMessageQueue cfg w s) + 1000"
proof -
  from assms(2) obtain m rest where q: "messageQueue s = m # rest"
    by (cases "messageQueue s") simp_all
  obtain r s' where sent:
    "sendDirectMessageInternal cfg w (userId m) (status m) (reason m) (s\<lparr>messageQueue := rest\<rparr>) =
       (r, s')"
    by (cases "sendDirectMessageInternal cfg w (userId m) (status m) (reason m)
                 (s\<lparr>messageQueue := rest\<rparr>)")
  show ?thesis
    using assms(1) q sent
    by (cases r)
      (simp_all add: processMessageQueue_def setTimeout_def processMessageQueue_catch_def Let_def)
qed

text \<open>
  C9: such a pass arms two timeouts, in this order: the backoff one, due 5000 ms times the
  new retry count after the end of the pass, and the pacing one, due 1000 ms after it. The
  pacing one is due first, and when it fires (no earlier timeout pending, the bot still
  ready) the pass it starts sends the reinserted item again, 1000 ms after the failure.
\<close>

theorem two_follow_up_drains:
  assumes "isReady s" and "messageQueue s = m # rest" and "client s \<noteq> None"
    and "outcome w = Failed e" and "retries m < 3"
    and "\<forall>d \<in> set (timeouts s). now s + took w + 1000 \<le> d"
  shows "timeouts (processMessageQueue cfg w s) =
           timeouts s @ [now (processMessageQueue cfg w s) + 5000 * (retries m + 1),
                         now (processMessageQueue cfg w s) + 1000] \<and>
         now (processMessageQueue cfg w s) + 1000 <
           now (processMessageQueue cfg w s) + 5000 * (retries m + 1) \<and>
         next_due (processMessageQueue cfg w s) = now (processMessageQueue cfg w s) + 1000 \<and>
         sends (fire_timeout cfg w' (processMessageQueue cfg w s)) =
           sends (processMessageQueue cfg w s) @
             [(userId m,
               composeEmbed cfg (now (processMessageQueue cfg w s) + 1000)
                 (now (processMessageQueue cfg w s) + 1000) (status m) (reason m))]"
proof -
  let ?p = "processMessageQueue cfg w s"
  let ?m' = "m\<lparr>retries := retries m + 1\<rparr>"
  let ?s0 = "s\<lparr>messageQueue := rest\<rparr>"
  have "\<exists>e'. fst (sendDirectMessageInternal cfg w (userId m) (status m) (reason m) ?s0) = Inl e'"
    by (rule sendDirectMessageInternal_failed) (simp add: assms(4))
  then obtain e' s1 where thrown:
    "sendDirectMessageInternal cfg w (userId m) (status m) (reason m) ?s0 = (Inl e', s1)"
    by (cases "sendDirectMessageInternal cfg w (userId m) (status m) (reason m) ?s0") auto
  have s1: "messageQueue s1 = rest" "timeouts s1 = timeouts s" "isReady s1" "client s1 \<noteq> None"
    "now s1 \<le> now s + took w"
    using sendDirectMessageInternal_keeps(1,2,3,4,6)
      [of cfg w "userId m" "status m" "reason m" ?s0] assms(1,3)
    by (simp_all add: thrown)
  have pass: "?p = setTimeout 1000 (processMessageQueue_catch m s1)"
    using assms(1,2) thrown by (rule processMessageQueue_thrown)
  have now_p: "now ?p = now s1"
    by (simp add: pass setTimeout_fields processMessageQueue_catch_keeps)
  have timeouts_p: "timeouts ?p = timeouts s @ [now ?p + 5000 * (retries m + 1), now ?p + 1000]"
    using assms(5) s1(2)
    by (simp add: pass setTimeout_fields processMessageQueue_catch_retry
        processMessageQueue_catch_keeps)
  have queue_p: "messageQueue ?p = ?m' # rest"
    using assms(5) s1(1) by (simp add: pass setTimeout_fields processMessageQueue_catch_retry)
  have ready_p: "isReady ?p" and client_p: "client ?p \<noteq> None"
    using s1(3,4) by (simp_all add: pass setTimeout_fields processMessageQueue_catch_keeps)
  have due: "next_due ?p = now ?p + 1000"
    unfolding next_due_def
  proof (rule Min_eqI)
    show "finite (set (timeouts ?p))" by simp
    show "now ?p + 1000 \<in> set (timeouts ?p)" by (simp add: timeouts_p)
    fix d assume "d \<in> set (timeouts ?p)"
    then show "now ?p + 1000 \<le> d"
      using assms(6) s1(5) by (auto simp add: timeouts_p now_p)
  qed
  let ?q = "?p\<lparr>timeouts := remove1 (next_due ?p) (timeouts ?p),
                now := max (now ?p) (next_due ?p)\<rparr>"
  have fire: "fire_timeout cfg w' ?p = processMessageQueue cfg w' ?q"
    by (simp add: fire_timeout_def timeouts_p)
  have q: "isReady ?q" "messageQueue ?q = ?m' # rest" "client ?q \<noteq> None"
    "now ?q = now ?p + 1000" "sends ?q = sends ?p"
    using ready_p client_p queue_p by (simp_all add: due)
  have "sends (processMessageQueue cfg w' ?q) =
          sends ?q @ [(userId ?m', composeEmbed cfg (now ?q) (now ?q) (status ?m') (reason ?m'))]"
    using q(1,2,3) by (rule processMessageQueue_sends)
  then have again: "sends (fire_timeout cfg w' ?p) =
      sends ?p @ [(userId m, composeEmbed cfg (now ?p + 1000) (now ?p + 1000) (status m) (reason m))]"
    by (simp add: fire q(4,5))
  show ?thesis
    using timeouts_p due again by simp
qed

theorem two_follow_up_drains_witness:
  "timeouts (processMessageQueue applicationConfig timed_out (ready_bot 0 [u3, u4])) =
     [now (processMessageQueue applicationConfig timed_out (ready_bot 0 [u3, u4])) + 5000,
      now (processMessageQueue applicationConfig timed_out (ready_bot 0 [u3, u4])) + 1000] \<and>
   next_due (processMessageQueue applicationConfig timed_out (ready_bot 0 [u3, u4])) =
     now (processMessageQueue applicationConfig timed_out (ready_bot 0 [u3, u4])) + 1000 \<and>
   sends (fire_timeout applicationConfig delivered
            (processMessageQueue applicationConfig timed_out (ready_bot 0 [u3, u4]))) =
     sends (processMessageQueue applicationConfig timed_out (ready_bot 0 [u3, u4])) @
       [(''u3'',
         composeEmbed applicationConfig
           (now (processMessageQueue applicationConfig timed_out (ready_bot 0 [u3, u4])) + 1000)
           (now (processMessageQueue applicationConfig timed_out (ready_bot 0 [u3, u4])) + 1000)
           Denied (Some ''Incomplete answers''))]"
  using two_follow_up_drains
    [of "ready_bot 0 [u3, u4]" u3 "[u4]" timed_out User_fetch_timeout applicationConfig delivered]
  by (simp add: sample_defs)

subsection \<open>Overlapping drain passes\<close>

lemma drain_Nil: "drain cfg [] r = r"
  by (simp add: drain_def)

lemma drain_Cons: "drain cfg (x # xs) r = drain cfg xs (step cfg x r)"
  by (simp add: drain_def)

lemma drain_append: "drain cfg (xs @ ys) r = drain cfg ys (drain cfg xs r)"
  by (simp add: drain_def)

lemma no_push_Cons:
  "no_push u (x # xs) \<longleftrightarrow> (case x of Push m \<Rightarrow> userId m \<noteq> u | _ \<Rightarrow> True) \<and> no_push u xs"
  by (simp add: no_push_def)

lemma processMessageQueue_begin_idle:
  "\<not> isReady s \<or> messageQueue s = [] \<Longrightarrow> processMessageQueue_begin cfg (s, fl) = (s, fl)"
  by (auto simp add: processMessageQueue_begin_def)


lemma processMessageQueue_begin_thrown:
  assumes "isReady s" and "messageQueue s = m # rest" and "client s \<noteq> None"
    and "composeEmbed cfg (now s) (now s) (status m) (reason m) = Inl e"
  shows "processMessageQueue_begin cfg (s, fl) =
           (setTimeout 1000
              (processMessageQueue_catch m
                 (s\<lparr>messageQueue := rest, sends := sends s @ [(userId m, Inl e)]\<rparr>)), fl)"
  using assms
  by (simp add: processMessageQueue_begin_def sendDirectMessageInternal_begin_client)

lemma processMessageQueue_begin_started:
  assumes "isReady s" and "messageQueue s = m # rest" and "client s \<noteq> None"
    and "composeEmbed cfg (now s) (now s) (status m) (reason m) = Inr x"
  shows "processMessageQueue_begin cfg (s, fl) =
           (s\<lparr>messageQueue := rest, sends := sends s @ [(userId m, Inr x)]\<rparr>, fl @ [m])"
  using assms
  by (simp add: processMessageQueue_begin_def sendDirectMessageInternal_begin_client)

lemma processMessageQueue_catch_queue:
  "messageQueue (processMessageQueue_catch m s) =
     (if retries m < 3 then m\<lparr>retries := retries m + 1\<rparr> # messageQueue s else messageQueue s)"
  by (simp add: processMessageQueue_catch_def Let_def setTimeout_def)

lemma for_user_remove:
  assumes "k < length fl"
  shows "for_user u fl =
           for_user u (take k fl) @ (if userId (fl ! k) = u then [fl ! k] else []) @
           for_user u (drop (Suc k) fl)"
proof -
  have "fl = take k fl @ fl ! k # drop (Suc k) fl"
    using assms by (rule id_take_nth_drop)
  then have "for_user u fl = for_user u (take k fl @ fl ! k # drop (Suc k) fl)"
    by simp
  then show ?thesis
    by (simp add: for_user_def)
qed

lemma for_user_removed:
  "for_user u (take k fl @ drop (Suc k) fl) = for_user u (take k fl) @ for_user u (drop (Suc k) fl)"
  by (simp add: for_user_def)

text \<open>A step that does not concern the recipient leaves its messages where they are.\<close>

lemma tracked_iff:
  "tracked u n0 f r \<longleftrightarrow>
     (\<exists>k\<le>3. map retries (for_user u (messageQueue (fst r))) = [k] \<and>
        map retries (for_user u (snd r)) = [] \<and> attempts_of u (fst r) = n0 + k) \<or>
     (\<exists>k\<le>3. map retries (for_user u (messageQueue (fst r))) = [] \<and>
        map retries (for_user u (snd r)) = [k] \<and> attempts_of u (fst r) = n0 + k + 1) \<or>
     (map retries (for_user u (messageQueue (fst r))) = [] \<and>
      map retries (for_user u (snd r)) = [] \<and>
      attempts_of u (fst r) \<le> n0 + 4 \<and> (f \<longrightarrow> attempts_of u (fst r) = n0 + 4))"
  by (auto simp add: tracked_def split: list.splits)

lemma tracked_begin:
  assumes "client s \<noteq> None" and "tracked u n0 f (s, fl)"
  shows "tracked u n0 f (processMessageQueue_begin cfg (s, fl))"
proof (cases "\<not> isReady s \<or> messageQueue s = []")
  case True
  then show ?thesis
    using assms(2) by (simp add: processMessageQueue_begin_idle)
next
  case False
  then obtain m rest where ready: "isReady s" and q: "messageQueue s = m # rest"
    by (cases "messageQueue s") auto
  show ?thesis
  proof (cases "composeEmbed cfg (now s) (now s) (status m) (reason m)")
    case (Inl e)
    note started = processMessageQueue_begin_thrown [OF ready q assms(1) Inl, of fl]
    show ?thesis
      using assms(2)
      by (auto simp add: started tracked_iff for_user_def attempts_of_def q setTimeout_fields
          processMessageQueue_catch_queue processMessageQueue_catch_keeps
          split: if_splits)
  next
    case (Inr x)
    note started = processMessageQueue_begin_started [OF ready q assms(1) Inr, of fl]
    show ?thesis
      using assms(2)
      by (auto simp add: started tracked_iff for_user_def attempts_of_def q
          split: if_splits)
  qed
qed

lemma for_user_Cons:
  "for_user u (m # ms) = (if userId m = u then m # for_user u ms else for_user u ms)"
  by (simp add: for_user_def)

lemma processMessageQueue_end_settled:
  assumes "k < length fl"
  shows "snd (processMessageQueue_end k out (s, fl)) = take k fl @ drop (Suc k) fl"
    and "sends (fst (processMessageQueue_end k out (s, fl))) = sends s"
    and "messageQueue (fst (processMessageQueue_end k out (s, fl))) =
           (if out \<noteq> Sent \<and> retries (fl ! k) < 3
            then (fl ! k)\<lparr>retries := retries (fl ! k) + 1\<rparr> # messageQueue s
            else messageQueue s)"
  using assms
  by (cases out;
      simp add: processMessageQueue_end_def setTimeout_fields processMessageQueue_catch_queue
        processMessageQueue_catch_keeps)+

lemma tracked_end:
  assumes "tracked u n0 f (s, fl)"
    and "f \<longrightarrow> (k < length fl \<and> userId (fl ! k) = u \<longrightarrow> out \<noteq> Sent)"
  shows "tracked u n0 f (processMessageQueue_end k out (s, fl))"
proof (cases "k < length fl")
  case False
  then show ?thesis
    using assms(1) by (simp add: processMessageQueue_end_def)
next
  case True
  note split_fl = for_user_remove [OF True, of u]
  note settled = processMessageQueue_end_settled [OF True, of out s]
  have attempts: "attempts_of u (fst (processMessageQueue_end k out (s, fl))) = attempts_of u s"
    by (simp add: attempts_of_def settled(2))
  show ?thesis
  proof (cases "userId (fl ! k) = u")
    case False
    then have "for_user u (snd (processMessageQueue_end k out (s, fl))) = for_user u fl"
      and "for_user u (messageQueue (fst (processMessageQueue_end k out (s, fl)))) =
             for_user u (messageQueue s)"
      using split_fl by (simp_all add: settled for_user_removed for_user_Cons)
    then show ?thesis
      using assms(1) by (simp add: tracked_iff attempts)
  next
    case mine: True
    from assms(1) split_fl mine have flying:
      "for_user u (take k fl) = []" "for_user u (drop (Suc k) fl) = []"
      "for_user u (messageQueue s) = []" "retries (fl ! k) \<le> 3"
      "attempts_of u s = n0 + retries (fl ! k) + 1"
      by (auto simp add: tracked_iff append_eq_Cons_conv split: if_splits)
    have waiting: "for_user u (snd (processMessageQueue_end k out (s, fl))) = []"
      by (simp add: settled for_user_removed flying(1,2))
    have queue: "for_user u (messageQueue (fst (processMessageQueue_end k out (s, fl)))) =
        (if out \<noteq> Sent \<and> retries (fl ! k) < 3
         then [(fl ! k)\<lparr>retries := retries (fl ! k) + 1\<rparr>] else [])"
      using mine by (simp add: settled for_user_Cons flying(3))
    show ?thesis
      using flying(4,5) assms(2) True mine
      by (auto simp add: tracked_iff attempts waiting queue)
  qed
qed

lemma client_step: "client (fst (step cfg x r)) = client (fst r)"
  by (cases x; cases r)
    (auto simp add: step_def processMessageQueue_begin_def processMessageQueue_end_def
      sendDirectMessageInternal_begin_def Let_def setTimeout_fields
      processMessageQueue_catch_keeps sleep_def
      split: list.splits sum.splits send_outcome.splits)

lemma tracked_step:
  assumes "client (fst r) \<noteq> None" and "tracked u n0 f r"
    and "case x of Push m \<Rightarrow> userId m \<noteq> u | _ \<Rightarrow> True"
    and "f \<longrightarrow> (case x of
                  End k out \<Rightarrow> (k < length (snd r) \<and> userId (snd r ! k) = u \<longrightarrow> out \<noteq> Sent)
                | _ \<Rightarrow> True)"
  shows "tracked u n0 f (step cfg x r)"
proof (cases r)
  case (Pair s fl)
  show ?thesis
  proof (cases x)
    case Begin
    then show ?thesis
      using assms(1,2) by (simp add: step_def Pair tracked_begin)
  next
    case (End k out)
    then show ?thesis
      using assms(2,4) by (simp add: step_def Pair tracked_end)
  next
    case (Ready b)
    then show ?thesis
      using assms(2) by (simp add: step_def Pair tracked_iff attempts_of_def)
  next
    case (Push m)
    then show ?thesis
      using assms(2,3) by (simp add: step_def Pair tracked_iff attempts_of_def for_user_def)
  next
    case (Wait d)
    then show ?thesis
      using assms(2) by (simp add: step_def Pair tracked_iff attempts_of_def sleep_def)
  qed
qed

text \<open>
  Along every schedule that pushes no second message for the recipient, the message stays
  tracked.
\<close>

lemma tracked_drain:
  assumes "client (fst r) \<noteq> None" and "tracked u n0 f r" and "no_push u steps"
    and "f \<longrightarrow> always_fails cfg u steps r"
  shows "tracked u n0 f (drain cfg steps r)"
  using assms
proof (induction steps arbitrary: r)
  case Nil
  then show ?case by (simp add: drain_Nil)
next
  case (Cons x xs)
  have "tracked u n0 f (step cfg x r)"
    using Cons.prems by (intro tracked_step) (auto simp add: no_push_Cons split: step.splits)
  moreover have "client (fst (step cfg x r)) \<noteq> None"
    using Cons.prems(1) by (simp add: client_step)
  ultimately have "tracked u n0 f (drain cfg xs (step cfg x r))"
    using Cons.prems(3,4) by (intro Cons.IH) (simp_all add: no_push_Cons)
  then show ?case by (simp add: drain_Cons)
qed






text \<open>
  A pass that nothing overlaps and whose send fails: one send attempt for the head, which
  goes back with one retry more, or is dropped at the ceiling.
\<close>

lemma pass_failed_all:
  assumes "isReady s" and "client s \<noteq> None" and "messageQueue s = m # rest"
    and "out \<noteq> Sent"
  shows "snd (drain cfg (pass (d, out)) (s, [])) = [] \<and>
         messageQueue (fst (drain cfg (pass (d, out)) (s, []))) =
           (if retries m < 3 then m\<lparr>retries := retries m + 1\<rparr> # rest else rest) \<and>
         sends (fst (drain cfg (pass (d, out)) (s, []))) =
           sends s @ [(userId m, composeEmbed cfg (now s) (now s) (status m) (reason m))] \<and>
         isReady (fst (drain cfg (pass (d, out)) (s, []))) \<and>
         client (fst (drain cfg (pass (d, out)) (s, []))) \<noteq> None"
proof -
  from assms(4) obtain e where failed: "out = Failed e"
    by (cases out) simp_all
  show ?thesis
  proof (cases "composeEmbed cfg (now s) (now s) (status m) (reason m)")
    case (Inl err)
    note started = processMessageQueue_begin_thrown [OF assms(1,3,2) Inl, of "[]"]
    show ?thesis
      using assms(1,2)
      by (simp add: pass_def drain_def step_def started processMessageQueue_end_def Inl
          sleep_def setTimeout_fields processMessageQueue_catch_queue
          processMessageQueue_catch_keeps)
  next
    case (Inr x)
    note started = processMessageQueue_begin_started [OF assms(1,3,2) Inr, of "[]"]
    show ?thesis
      using assms(1,2)
      by (simp add: pass_def drain_def step_def started processMessageQueue_end_def Inr
          failed sleep_def setTimeout_fields processMessageQueue_catch_queue
          processMessageQueue_catch_keeps)
  qed
qed

lemma pass_failed:
  assumes "isReady s" and "client s \<noteq> None" and "messageQueue s = m # rest"
    and "out \<noteq> Sent"
  shows "snd (drain cfg (pass (d, out)) (s, [])) = []"
    and "messageQueue (fst (drain cfg (pass (d, out)) (s, []))) =
           (if retries m < 3 then m\<lparr>retries := retries m + 1\<rparr> # rest else rest)"
    and "sends (fst (drain cfg (pass (d, out)) (s, []))) =
           sends s @ [(userId m, composeEmbed cfg (now s) (now s) (status m) (reason m))]"
    and "isReady (fst (drain cfg (pass (d, out)) (s, [])))"
    and "client (fst (drain cfg (pass (d, out)) (s, []))) \<noteq> None"
  using pass_failed_all [OF assms, of cfg d] by simp_all

lemma passes_Cons: "drain cfg (passes (p # ps)) r = drain cfg (passes ps) (drain cfg (pass p) r)"
  by (simp add: passes_def drain_append)

lemma passes_snoc: "drain cfg (passes (ps @ [p])) r = drain cfg (pass p) (drain cfg (passes ps) r)"
  by (simp add: passes_def drain_append)

text \<open>
  While the retry count stays within the ceiling, every failed pass sends the item at the
  head once and puts it back there.
\<close>

lemma passes_failing:
  assumes "isReady s" and "client s \<noteq> None" and "messageQueue s = m # rest"
    and "\<forall>p \<in> set ps. snd p \<noteq> Sent" and "retries m + length ps \<le> 3"
  shows "snd (drain cfg (passes ps) (s, [])) = [] \<and>
         messageQueue (fst (drain cfg (passes ps) (s, []))) =
           m\<lparr>retries := retries m + length ps\<rparr> # rest \<and>
         isReady (fst (drain cfg (passes ps) (s, []))) \<and>
         client (fst (drain cfg (passes ps) (s, []))) \<noteq> None \<and>
         (\<exists>ts. length ts = length ps \<and>
            sends (fst (drain cfg (passes ps) (s, []))) =
              sends s @ map (\<lambda>t. (userId m, composeEmbed cfg t t (status m) (reason m))) ts)"
  using assms
proof (induction ps arbitrary: s m)
  case Nil
  then show ?case by (simp add: passes_def drain_Nil)
next
  case (Cons p ps)
  let ?m' = "m\<lparr>retries := retries m + 1\<rparr>"
  let ?r = "drain cfg (pass p) (s, [])"
  from Cons.prems(5) have less: "retries m < 3" by simp
  from Cons.prems(4) have failed: "snd p \<noteq> Sent" by simp
  note one = pass_failed [OF Cons.prems(1,2,3) failed, of cfg "fst p"]
  have r: "?r = (fst ?r, [])" "isReady (fst ?r)" "client (fst ?r) \<noteq> None"
    "messageQueue (fst ?r) = ?m' # rest"
    "sends (fst ?r) =
       sends s @ [(userId m, composeEmbed cfg (now s) (now s) (status m) (reason m))]"
    using one less by (simp_all add: prod_eq_iff)
  have "snd (drain cfg (passes ps) (fst ?r, [])) = [] \<and>
        messageQueue (fst (drain cfg (passes ps) (fst ?r, []))) =
          ?m'\<lparr>retries := retries ?m' + length ps\<rparr> # rest \<and>
        isReady (fst (drain cfg (passes ps) (fst ?r, []))) \<and>
        client (fst (drain cfg (passes ps) (fst ?r, []))) \<noteq> None \<and>
        (\<exists>ts. length ts = length ps \<and>
           sends (fst (drain cfg (passes ps) (fst ?r, []))) =
             sends (fst ?r) @
               map (\<lambda>t. (userId ?m', composeEmbed cfg t t (status ?m') (reason ?m'))) ts)"
    using r(2,3,4) Cons.prems(4,5) by (intro Cons.IH) simp_all
  then obtain ts where ih:
    "snd (drain cfg (passes ps) ?r) = []"
    "messageQueue (fst (drain cfg (passes ps) ?r)) =
       m\<lparr>retries := retries m + 1 + length ps\<rparr> # rest"
    "isReady (fst (drain cfg (passes ps) ?r))" "client (fst (drain cfg (passes ps) ?r)) \<noteq> None"
    "length ts = length ps"
    "sends (fst (drain cfg (passes ps) ?r)) =
       sends (fst ?r) @ map (\<lambda>t. (userId m, composeEmbed cfg t t (status m) (reason m))) ts"
    using r(1) by auto
  have "length (now s # ts) = length (p # ps) \<and>
        sends (fst (drain cfg (passes (p # ps)) (s, []))) =
          sends s @ map (\<lambda>t. (userId m, composeEmbed cfg t t (status m) (reason m))) (now s # ts)"
    by (simp add: passes_Cons ih(5,6) r(5))
  then have "\<exists>ts'. length ts' = length (p # ps) \<and>
        sends (fst (drain cfg (passes (p # ps)) (s, []))) =
          sends s @ map (\<lambda>t. (userId m, composeEmbed cfg t t (status m) (reason m))) ts'"
    by blast
  then show ?case
    using ih(1,2,3,4) by (simp add: passes_Cons)
qed

text \<open>Four failed passes on an item that starts with no retries.\<close>

lemma passes_four_failures:
  assumes "isReady s" and "client s \<noteq> None" and "messageQueue s = m # rest"
    and "retries m = 0" and "length ps = 4" and "\<forall>p \<in> set ps. snd p \<noteq> Sent"
  shows "snd (drain cfg (passes ps) (s, [])) = [] \<and>
         messageQueue (fst (drain cfg (passes ps) (s, []))) = rest \<and>
         (\<exists>ts. length ts = 4 \<and>
            sends (fst (drain cfg (passes ps) (s, []))) =
              sends s @ map (\<lambda>t. (userId m, composeEmbed cfg t t (status m) (reason m))) ts)"
proof -
  from assms(5) obtain ps3 p4 where ps: "ps = ps3 @ [p4]" and len3: "length ps3 = 3"
    by (cases ps rule: rev_cases) simp_all
  let ?r3 = "drain cfg (passes ps3) (s, [])"
  let ?m3 = "m\<lparr>retries := 3\<rparr>"
  have "snd ?r3 = [] \<and>
        messageQueue (fst ?r3) = m\<lparr>retries := retries m + length ps3\<rparr> # rest \<and>
        isReady (fst ?r3) \<and> client (fst ?r3) \<noteq> None \<and>
        (\<exists>ts. length ts = length ps3 \<and>
           sends (fst ?r3) =
             sends s @ map (\<lambda>t. (userId m, composeEmbed cfg t t (status m) (reason m))) ts)"
    using assms(1,2,3,4,6) len3 by (intro passes_failing) (simp_all add: ps)
  then obtain ts where r3: "?r3 = (fst ?r3, [])" "messageQueue (fst ?r3) = ?m3 # rest"
    "isReady (fst ?r3)" "client (fst ?r3) \<noteq> None" "length ts = 3"
    "sends (fst ?r3) =
       sends s @ map (\<lambda>t. (userId m, composeEmbed cfg t t (status m) (reason m))) ts"
    using assms(4) len3 by (auto simp add: prod_eq_iff)
  have p4: "snd p4 \<noteq> Sent" using assms(6) by (simp add: ps)
  note last = pass_failed(1,2,3) [OF r3(3,4,2) p4, of cfg "fst p4"]
  have run: "drain cfg (passes ps) (s, []) = drain cfg (pass p4) (fst ?r3, [])"
    using r3(1) by (simp add: ps passes_snoc)
  have "length (ts @ [now (fst ?r3)]) = 4 \<and>
        sends (fst (drain cfg (passes ps) (s, []))) =
          sends s @ map (\<lambda>t. (userId m, composeEmbed cfg t t (status m) (reason m)))
                      (ts @ [now (fst ?r3)])"
    using last(3) by (simp add: run r3(5,6))
  then have "\<exists>ts'. length ts' = 4 \<and>
        sends (fst (drain cfg (passes ps) (s, []))) =
          sends s @ map (\<lambda>t. (userId m, composeEmbed cfg t t (status m) (reason m))) ts'"
    by blast
  then show ?thesis
    using last(1,2) by (simp add: run)
qed

text \<open>Running a schedule on sample values.\<close>

lemma sendDirectMessageInternal_begin_composed:
  assumes "client s \<noteq> None" and "\<not> isl (composeEmbed cfg (now s) (now s) st rsn)"
  shows "sendDirectMessageInternal_begin cfg uid st rsn s =
           (Inr (), s\<lparr>sends := sends s @ [(uid, composeEmbed cfg (now s) (now s) st rsn)]\<rparr>)"
  using assms
  by (cases "composeEmbed cfg (now s) (now s) st rsn")
    (simp_all add: sendDirectMessageInternal_begin_client)

lemma composes_applicationConfig:
  assumes "time_value t" and "truthy rsn \<longrightarrow> js_length (the rsn) \<le> 1024"
  shows "isl (composeEmbed applicationConfig t t st rsn) = False"
  using composeEmbed_composes [OF valid_branding_applicationConfig assms, of t st] by auto


subsection \<open>Dispatch\<close>

lemma ready_bot_reached:
  "handle cfg (Ev_ready w) (initializeDiscordBot (Some ''token'') (initial_bot t)) =
     ready_bot t []"
  by (simp add: handle_def on_ready_def initializeDiscordBot_def truthy_def initial_bot_def
      processMessageQueue_def setInterval_def ready_bot_def)

lemma sendDirectMessage_init_session:
  "client s \<noteq> None \<Longrightarrow> sendDirectMessage_init token cfg evs s = s"
  by (auto simp add: sendDirectMessage_init_def)

lemma sendDirectMessage_deliver_returns:
  "fst (sendDirectMessage_deliver cfg w uid st rsn s) = Inr ()"
  by (simp add: sendDirectMessage_deliver_def split: prod.splits sum.splits)

text \<open>A call made while the bot is ready makes one send attempt and queues what fails.\<close>

lemma sendDirectMessage_ready:
  assumes "isReady s" and "client s \<noteq> None"
  shows "fst (sendDirectMessage token cfg evs w uid st rsn s) = Inr ()"
    and "sends (snd (sendDirectMessage token cfg evs w uid st rsn s)) =
           sends s @ [(uid, composeEmbed cfg (now s) (now s) st rsn)]"
    and "messageQueue (snd (sendDirectMessage token cfg evs w uid st rsn s)) =
           (if fst (sendDirectMessageInternal cfg w uid st rsn s) = Inr () then messageQueue s
            else messageQueue s @ [\<lparr>userId = uid, status = st, reason = rsn, retries = 0\<rparr>])"
    and "isReady (snd (sendDirectMessage token cfg evs w uid st rsn s))"
    and "client (snd (sendDirectMessage token cfg evs w uid st rsn s)) \<noteq> None"
proof -
  obtain r s1 where call: "sendDirectMessageInternal cfg w uid st rsn s = (r, s1)"
    by (cases "sendDirectMessageInternal cfg w uid st rsn s")
  have s1: "sends s1 = sends s @ [(uid, composeEmbed cfg (now s) (now s) st rsn)]"
    "messageQueue s1 = messageQueue s" "isReady s1" "client s1 \<noteq> None"
    using sendDirectMessageInternal_sends [OF assms(2), of cfg w uid st rsn]
      sendDirectMessageInternal_keeps(1,3,4) [of cfg w uid st rsn s] assms
    by (simp_all add: call)
  show "fst (sendDirectMessage token cfg evs w uid st rsn s) = Inr ()"
    by (simp add: sendDirectMessage_def sendDirectMessage_deliver_returns)
  show "sends (snd (sendDirectMessage token cfg evs w uid st rsn s)) =
           sends s @ [(uid, composeEmbed cfg (now s) (now s) st rsn)]"
    and "messageQueue (snd (sendDirectMessage token cfg evs w uid st rsn s)) =
           (if fst (sendDirectMessageInternal cfg w uid st rsn s) = Inr () then messageQueue s
            else messageQueue s @ [\<lparr>userId = uid, status = st, reason = rsn, retries = 0\<rparr>])"
    and "isReady (snd (sendDirectMessage token cfg evs w uid st rsn s))"
    and "client (snd (sendDirectMessage token cfg evs w uid st rsn s)) \<noteq> None"
    using assms s1
    by (cases r;
        simp add: sendDirectMessage_def sendDirectMessage_init_session
          sendDirectMessage_deliver_def call)+
qed




text \<open>
  Without a client, a pending timeout or an interval, no event reaches any code of the
  module.
\<close>

lemma handle_inert:
  "client s = None \<Longrightarrow> timeouts s = [] \<Longrightarrow> intervals s = [] \<Longrightarrow> handle cfg ev s = s"
  by (cases ev) (simp_all add: handle_def fire_timeout_def)

lemma run_inert:
  "client s = None \<Longrightarrow> timeouts s = [] \<Longrightarrow> intervals s = [] \<Longrightarrow> run cfg evs s = s"
  by (induction evs) (simp_all add: run_def handle_inert)

lemma initializeDiscordBot_no_token:
  "\<not> truthy token \<Longrightarrow> initializeDiscordBot token s = s"
  by (simp add: initializeDiscordBot_def)

lemma sendDirectMessage_no_token:
  assumes "\<not> truthy token" and "client s = None" and "\<not> isReady s"
    and "timeouts s = []" and "intervals s = []"
  shows "sendDirectMessage token cfg evs w uid st rsn s =
           (Inr (),
            s\<lparr>now := now s + 1000,
              messageQueue := messageQueue s @
                [\<lparr>userId = uid, status = st, reason = rsn, retries = 0\<rparr>]\<rparr>)"
  using assms
  by (simp add: sendDirectMessage_def sendDirectMessage_init_def sendDirectMessage_deliver_def
      initializeDiscordBot_no_token run_inert)

text \<open>
  C1, as stated, fails: without a token, a call on the module as loaded returns after the one
  second wait and leaves its message in the queue.
\<close>

theorem no_token_still_queues:
  "messageQueue (snd (sendDirectMessage None applicationConfig []
       \<lparr>outcome = Sent, took = 0\<rparr> ''u1'' Approved None (initial_bot 0))) =
     [\<lparr>userId = ''u1'', status = Approved, reason = None, retries = 0\<rparr>] \<and>
   now (snd (sendDirectMessage None applicationConfig []
       \<lparr>outcome = Sent, took = 0\<rparr> ''u1'' Approved None (initial_bot 0))) = 1000"
  by (simp add: sendDirectMessage_no_token truthy_def initial_bot_def)

text \<open>
  C1, amended: without a token, on a module with no client, any number of calls of
  \<^verbatim>\<open>sendDirectMessage\<close>, whatever events the runtime delivers during their waits, throw
  nothing, create no client, start no login, attempt no send, arm no timer and never make the
  bot ready; each call waits one second and appends its message, with no retries, to the
  queue.
\<close>

theorem no_token_inert:
  assumes "\<not> truthy token" and "client s = None" and "\<not> isReady s"
    and "timeouts s = []" and "intervals s = []"
  shows "fst (sendDirectMessages token cfg cs s) = replicate (length cs) (Inr ()) \<and>
         client (snd (sendDirectMessages token cfg cs s)) = None \<and>
         \<not> isReady (snd (sendDirectMessages token cfg cs s)) \<and>
         logins (snd (sendDirectMessages token cfg cs s)) = logins s \<and>
         sends (snd (sendDirectMessages token cfg cs s)) = sends s \<and>
         timeouts (snd (sendDirectMessages token cfg cs s)) = [] \<and>
         intervals (snd (sendDirectMessages token cfg cs s)) = [] \<and>
         messageQueue (snd (sendDirectMessages token cfg cs s)) = messageQueue s @ map queued cs \<and>
         now (snd (sendDirectMessages token cfg cs s)) = now s + 1000 * length cs"
  using assms
proof (induction cs arbitrary: s)
  case Nil
  then show ?case by simp
next
  case (Cons c cs)
  let ?s1 = "s\<lparr>now := now s + 1000, messageQueue := messageQueue s @ [queued c]\<rparr>"
  have call: "sendDirectMessage token cfg (call_events c) (call_world c) (call_userId c)
                (call_status c) (call_reason c) s = (Inr (), ?s1)"
    using Cons.prems by (simp add: sendDirectMessage_no_token queued_def)
  have "fst (sendDirectMessages token cfg cs ?s1) = replicate (length cs) (Inr ()) \<and>
         client (snd (sendDirectMessages token cfg cs ?s1)) = None \<and>
         \<not> isReady (snd (sendDirectMessages token cfg cs ?s1)) \<and>
         logins (snd (sendDirectMessages token cfg cs ?s1)) = logins ?s1 \<and>
         sends (snd (sendDirectMessages token cfg cs ?s1)) = sends ?s1 \<and>
         timeouts (snd (sendDirectMessages token cfg cs ?s1)) = [] \<and>
         intervals (snd (sendDirectMessages token cfg cs ?s1)) = [] \<and>
         messageQueue (snd (sendDirectMessages token cfg cs ?s1)) =
           messageQueue ?s1 @ map queued cs \<and>
         now (snd (sendDirectMessages token cfg cs ?s1)) = now ?s1 + 1000 * length cs"
    using Cons.prems by (intro Cons.IH) simp_all
  then show ?case
    by (simp add: call split_beta)
qed

theorem no_token_inert_witness:
  "fst (sendDirectMessages None applicationConfig two_calls (initial_bot 0)) = [Inr (), Inr ()] \<and>
   client (snd (sendDirectMessages None applicationConfig two_calls (initial_bot 0))) = None \<and>
   sends (snd (sendDirectMessages None applicationConfig two_calls (initial_bot 0))) = [] \<and>
   messageQueue (snd (sendDirectMessages None applicationConfig two_calls (initial_bot 0))) =
     [\<lparr>userId = ''u1'', status = Approved, reason = None, retries = 0\<rparr>,
      \<lparr>userId = ''u2'', status = Denied, reason = Some ''Too short'', retries = 0\<rparr>] \<and>
   now (snd (sendDirectMessages None applicationConfig two_calls (initial_bot 0))) = 2000"
  using no_token_inert [of None "initial_bot 0" applicationConfig two_calls]
  by (simp add: truthy_def initial_bot_def two_calls_def queued_def)

text \<open>
  C4, as stated, fails: the call returns the same (no) value whether the immediate send
  succeeded or failed; only the queue tells the two apart.
\<close>

theorem dispatch_result_same:
  "fst (sendDirectMessage (Some ''token'') applicationConfig [] \<lparr>outcome = Sent, took = 80\<rparr>
          ''u1'' Denied None (ready_bot 5000 [])) =
   fst (sendDirectMessage (Some ''token'') applicationConfig []
          \<lparr>outcome = Failed (Api_error ''Cannot send messages to this user''), took = 80\<rparr>
          ''u1'' Denied None (ready_bot 5000 [])) \<and>
   messageQueue (snd (sendDirectMessage (Some ''token'') applicationConfig []
          \<lparr>outcome = Sent, took = 80\<rparr> ''u1'' Denied None (ready_bot 5000 []))) = [] \<and>
   messageQueue (snd (sendDirectMessage (Some ''token'') applicationConfig []
          \<lparr>outcome = Failed (Api_error ''Cannot send messages to this user''), took = 80\<rparr>
          ''u1'' Denied None (ready_bot 5000 []))) =
     [\<lparr>userId = ''u1'', status = Denied, reason = None, retries = 0\<rparr>]"
  by (simp add: sendDirectMessage_ready sendDirectMessageInternal_returns
      composes_applicationConfig time_value_def truthy_def ready_bot_def initial_bot_def)

text \<open>
  C4, amended: \<^verbatim>\<open>sendDirectMessage\<close> never throws and returns no value. Called while the bot
  is ready, it makes exactly one send attempt. When that succeeds, the payload composed and
  the platform delivering, the queue is left as it was; when it fails, the builder or the
  platform refusing, the message is appended to the queue with no retries.
\<close>

theorem dispatch_never_throws:
  "fst (sendDirectMessage token cfg evs w uid st rsn s) = Inr () \<and>
   (isReady s \<and> client s \<noteq> None \<longrightarrow>
      sends (snd (sendDirectMessage token cfg evs w uid st rsn s)) =
        sends s @ [(uid, composeEmbed cfg (now s) (now s) st rsn)] \<and>
      (\<not> isl (composeEmbed cfg (now s) (now s) st rsn) \<and> outcome w = Sent \<longrightarrow>
         messageQueue (snd (sendDirectMessage token cfg evs w uid st rsn s)) = messageQueue s) \<and>
      (isl (composeEmbed cfg (now s) (now s) st rsn) \<or> outcome w \<noteq> Sent \<longrightarrow>
         messageQueue (snd (sendDirectMessage token cfg evs w uid st rsn s)) =
           messageQueue s @ [\<lparr>userId = uid, status = st, reason = rsn, retries = 0\<rparr>]))"
proof -
  have "fst (sendDirectMessage token cfg evs w uid st rsn s) = Inr ()"
    by (simp add: sendDirectMessage_def sendDirectMessage_deliver_returns)
  moreover have "sends (snd (sendDirectMessage token cfg evs w uid st rsn s)) =
        sends s @ [(uid, composeEmbed cfg (now s) (now s) st rsn)] \<and>
      (\<not> isl (composeEmbed cfg (now s) (now s) st rsn) \<and> outcome w = Sent \<longrightarrow>
         messageQueue (snd (sendDirectMessage token cfg evs w uid st rsn s)) = messageQueue s) \<and>
      (isl (composeEmbed cfg (now s) (now s) st rsn) \<or> outcome w \<noteq> Sent \<longrightarrow>
         messageQueue (snd (sendDirectMessage token cfg evs w uid st rsn s)) =
           messageQueue s @ [\<lparr>userId = uid, status = st, reason = rsn, retries = 0\<rparr>])"
    if "isReady s" and "client s \<noteq> None"
    using that
    by (auto simp add: sendDirectMessage_ready(2,3) [OF that] sendDirectMessageInternal_returns)
  ultimately show ?thesis by blast
qed

theorem dispatch_never_throws_witness:
  "fst (sendDirectMessage (Some ''token'') applicationConfig [] delivered ''u1'' Denied None
          (ready_bot 5000 [])) = Inr () \<and>
   sends (snd (sendDirectMessage (Some ''token'') applicationConfig [] delivered ''u1'' Denied None
          (ready_bot 5000 []))) = [(''u1'', composeEmbed applicationConfig 5000 5000 Denied None)] \<and>
   messageQueue (snd (sendDirectMessage (Some ''token'') applicationConfig [] delivered ''u1''
          Denied None (ready_bot 5000 []))) = [] \<and>
   messageQueue (snd (sendDirectMessage (Some ''token'') applicationConfig [] timed_out ''u1''
          Denied None (ready_bot 5000 []))) =
     [\<lparr>userId = ''u1'', status = Denied, reason = None, retries = 0\<rparr>] \<and>
   messageQueue (snd (sendDirectMessage (Some ''token'') applicationConfig [] delivered ''u1''
          Denied (Some long_reason) (ready_bot 5000 []))) =
     [\<lparr>userId = ''u1'', status = Denied, reason = Some long_reason, retries = 0\<rparr>]"
proof -
  have long: "isl (composeEmbed applicationConfig 5000 5000 Denied (Some long_reason))"
    by (simp add: composeEmbed_throws truthy_def long_reason_length)
  show ?thesis
    using
      dispatch_never_throws
        [of "Some ''token''" applicationConfig "[]" delivered "''u1''" Denied None
          "ready_bot 5000 []"]
      dispatch_never_throws
        [of "Some ''token''" applicationConfig "[]" timed_out "''u1''" Denied None
          "ready_bot 5000 []"]
      dispatch_never_throws
        [of "Some ''token''" applicationConfig "[]" delivered "''u1''" Denied "Some long_reason"
          "ready_bot 5000 []"]
      long
    by (simp add: sample_defs composes_applicationConfig time_value_def truthy_def)
qed

text \<open>
  C5, as stated, fails: a call made while the bot is not ready, on the module as loaded, sends
  at once when the client becomes ready during the one second wait, and queues nothing.
\<close>

theorem ready_during_grace_sends:
  "\<not> isReady (initial_bot 0) \<and>
   sends (snd (sendDirectMessage (Some ''token'') applicationConfig
       [Ev_ready \<lparr>outcome = Sent, took = 0\<rparr>] \<lparr>outcome = Sent, took = 80\<rparr>
       ''u2'' Approved (Some ''Great application'') (initial_bot 0))) =
     [(''u2'', composeEmbed applicationConfig 1000 1000 Approved (Some ''Great application''))] \<and>
   messageQueue (snd (sendDirectMessage (Some ''token'') applicationConfig
       [Ev_ready \<lparr>outcome = Sent, took = 0\<rparr>] \<lparr>outcome = Sent, took = 80\<rparr>
       ''u2'' Approved (Some ''Great application'') (initial_bot 0))) = []"
  by (simp add: sendDirectMessage_def sendDirectMessage_init_def sendDirectMessage_deliver_def
      initializeDiscordBot_def truthy_def initial_bot_def run_def handle_def on_ready_def
      processMessageQueue_def setInterval_def sendDirectMessageInternal_def
      sendDirectMessageInternal_begin_composed composes_applicationConfig time_value_def
      js_length_defs sleep_def)

text \<open>
  C5, amended: a call that finds the bot not ready at its readiness check (after the wait,
  when it had to initialise) attempts no send: it appends the message to the queue with no
  retries and does nothing else. With a client already there, nothing is sent, no login is
  started and the queue gets the message.
\<close>

theorem readiness_gating:
  assumes "\<not> isReady (sendDirectMessage_init token cfg evs s)"
  shows "sendDirectMessage token cfg evs w uid st rsn s =
           (Inr (),
            (sendDirectMessage_init token cfg evs s)
              \<lparr>messageQueue := messageQueue (sendDirectMessage_init token cfg evs s) @
                 [\<lparr>userId = uid, status = st, reason = rsn, retries = 0\<rparr>]\<rparr>) \<and>
         sends (snd (sendDirectMessage token cfg evs w uid st rsn s)) =
           sends (sendDirectMessage_init token cfg evs s) \<and>
         (client s \<noteq> None \<longrightarrow>
            sends (snd (sendDirectMessage token cfg evs w uid st rsn s)) = sends s \<and>
            logins (snd (sendDirectMessage token cfg evs w uid st rsn s)) = logins s \<and>
            messageQueue (snd (sendDirectMessage token cfg evs w uid st rsn s)) =
              messageQueue s @ [\<lparr>userId = uid, status = st, reason = rsn, retries = 0\<rparr>])"
  using assms
  by (auto simp add: sendDirectMessage_def sendDirectMessage_deliver_def
      sendDirectMessage_init_session)

theorem readiness_gating_witness:
  "sends (snd (sendDirectMessage (Some ''token'') applicationConfig [] delivered ''u2'' Approved
          (Some ''Great application'') (initial_bot 0))) = [] \<and>
   messageQueue (snd (sendDirectMessage (Some ''token'') applicationConfig [] delivered ''u2''
          Approved (Some ''Great application'') (initial_bot 0))) =
     [\<lparr>userId = ''u2'', status = Approved, reason = Some ''Great application'', retries = 0\<rparr>]"
  using readiness_gating
    [of "Some ''token''" applicationConfig "[]" "initial_bot 0" delivered "''u2''" Approved
        "Some ''Great application''"]
  by (simp add: sendDirectMessage_init_def initializeDiscordBot_def truthy_def initial_bot_def
      run_def)

text \<open>
  C10: when the immediate send of a call made while the bot is ready fails, the message goes
  to the tail of the queue with no retries, the failed attempt not counted. If the queue was
  empty, the drain passes that follow, however they overlap and whatever the platform
  answers, attempt it at most four times more, five attempts in all, and exactly five when
  four passes fail.
\<close>

theorem immediate_attempt_not_counted:
  assumes "isReady s" and "client s \<noteq> None" and "outcome w \<noteq> Sent"
  shows "messageQueue (snd (sendDirectMessage token cfg evs w uid st rsn s)) =
           messageQueue s @ [\<lparr>userId = uid, status = st, reason = rsn, retries = 0\<rparr>] \<and>
         sends (snd (sendDirectMessage token cfg evs w uid st rsn s)) =
           sends s @ [(uid, composeEmbed cfg (now s) (now s) st rsn)] \<and>
         (messageQueue s = [] \<longrightarrow>
            (\<forall>steps. no_push uid steps \<longrightarrow>
               attempts_of uid
                 (fst (drain cfg steps (snd (sendDirectMessage token cfg evs w uid st rsn s), [])))
                 \<le> attempts_of uid s + 5) \<and>
            (\<forall>ps. length ps = 4 \<and> (\<forall>p \<in> set ps. snd p \<noteq> Sent) \<longrightarrow>
               messageQueue
                 (fst (drain cfg (passes ps)
                         (snd (sendDirectMessage token cfg evs w uid st rsn s), []))) = [] \<and>
               (\<exists>ts. length ts = 5 \<and>
                  sends (fst (drain cfg (passes ps)
                                (snd (sendDirectMessage token cfg evs w uid st rsn s), []))) =
                    sends s @ map (\<lambda>t. (uid, composeEmbed cfg t t st rsn)) ts)))"
proof -
  let ?m = "\<lparr>userId = uid, status = st, reason = rsn, retries = 0\<rparr>"
  let ?s1 = "snd (sendDirectMessage token cfg evs w uid st rsn s)"
  have s1: "messageQueue ?s1 = messageQueue s @ [?m]"
    "sends ?s1 = sends s @ [(uid, composeEmbed cfg (now s) (now s) st rsn)]"
    "isReady ?s1" "client ?s1 \<noteq> None"
    using assms(3)
    by (simp_all add: sendDirectMessage_ready [OF assms(1,2)] sendDirectMessageInternal_returns)
  have bound: "attempts_of uid (fst (drain cfg steps (?s1, []))) \<le> attempts_of uid s + 5"
    if "messageQueue s = []" and "no_push uid steps" for steps
  proof -
    have "tracked uid (attempts_of uid ?s1) False (?s1, [])"
      using that(1) by (simp add: tracked_iff s1(1) for_user_def)
    then have "tracked uid (attempts_of uid ?s1) False (drain cfg steps (?s1, []))"
      using s1(4) that(2) by (intro tracked_drain) simp_all
    then have "attempts_of uid (fst (drain cfg steps (?s1, []))) \<le> attempts_of uid ?s1 + 4"
      by (auto simp add: tracked_iff)
    then show ?thesis
      by (simp add: attempts_of_def s1(2))
  qed
  have five: "messageQueue (fst (drain cfg (passes ps) (?s1, []))) = [] \<and>
      (\<exists>ts. length ts = 5 \<and>
         sends (fst (drain cfg (passes ps) (?s1, []))) =
           sends s @ map (\<lambda>t. (uid, composeEmbed cfg t t st rsn)) ts)"
    if "messageQueue s = []" and "length ps = 4" and "\<forall>p \<in> set ps. snd p \<noteq> Sent" for ps
  proof -
    have q: "messageQueue ?s1 = ?m # []" using that(1) by (simp add: s1(1))
    have "snd (drain cfg (passes ps) (?s1, [])) = [] \<and>
         messageQueue (fst (drain cfg (passes ps) (?s1, []))) = [] \<and>
         (\<exists>ts. length ts = 4 \<and>
            sends (fst (drain cfg (passes ps) (?s1, []))) =
              sends ?s1 @ map (\<lambda>t. (userId ?m, composeEmbed cfg t t (status ?m) (reason ?m))) ts)"
      using s1(3,4) q _ that(2,3) by (rule passes_four_failures) simp
    then obtain ts where ts: "messageQueue (fst (drain cfg (passes ps) (?s1, []))) = []"
      "length ts = 4"
      "sends (fst (drain cfg (passes ps) (?s1, []))) =
         sends ?s1 @ map (\<lambda>t. (uid, composeEmbed cfg t t st rsn)) ts"
      by auto
    have "length (now s # ts) = 5 \<and>
          sends (fst (drain cfg (passes ps) (?s1, []))) =
            sends s @ map (\<lambda>t. (uid, composeEmbed cfg t t st rsn)) (now s # ts)"
      by (simp add: ts(2,3) s1(2))
    then have "\<exists>ts'. length ts' = 5 \<and>
          sends (fst (drain cfg (passes ps) (?s1, []))) =
            sends s @ map (\<lambda>t. (uid, composeEmbed cfg t t st rsn)) ts'"
      by blast
    then show ?thesis using ts(1) by simp
  qed
  show ?thesis
    using s1(1,2) bound five by blast
qed

theorem immediate_attempt_not_counted_witness:
  "messageQueue (snd (sendDirectMessage (Some ''token'') applicationConfig [] timed_out ''u3''
          Denied None (ready_bot 5000 []))) =
     [\<lparr>userId = ''u3'', status = Denied, reason = None, retries = 0\<rparr>] \<and>
   messageQueue (fst (drain applicationConfig (passes four_failing)
       (snd (sendDirectMessage (Some ''token'') applicationConfig [] timed_out ''u3''
          Denied None (ready_bot 5000 [])), []))) = [] \<and>
   length (sends (fst (drain applicationConfig (passes four_failing)
       (snd (sendDirectMessage (Some ''token'') applicationConfig [] timed_out ''u3''
          Denied None (ready_bot 5000 [])), [])))) = 5"
proof -
  have "isReady (ready_bot 5000 [])" and "client (ready_bot 5000 []) \<noteq> None"
    and "outcome timed_out \<noteq> Sent"
    by (simp_all add: sample_defs)
  from immediate_attempt_not_counted
    [OF this, of "Some ''token''" applicationConfig "[]" "''u3''" Denied None]
  have "messageQueue (snd (sendDirectMessage (Some ''token'') applicationConfig [] timed_out ''u3''
          Denied None (ready_bot 5000 []))) =
          [\<lparr>userId = ''u3'', status = Denied, reason = None, retries = 0\<rparr>]"
    and "\<forall>ps. length ps = 4 \<and> (\<forall>p \<in> set ps. snd p \<noteq> Sent) \<longrightarrow>
           messageQueue (fst (drain applicationConfig (passes ps)
             (snd (sendDirectMessage (Some ''token'') applicationConfig [] timed_out ''u3''
                Denied None (ready_bot 5000 [])), []))) = [] \<and>
           (\<exists>ts. length ts = 5 \<and>
              sends (fst (drain applicationConfig (passes ps)
                (snd (sendDirectMessage (Some ''token'') applicationConfig [] timed_out ''u3''
                   Denied None (ready_bot 5000 [])), []))) =
                sends (ready_bot 5000 []) @
                  map (\<lambda>t. (''u3'', composeEmbed applicationConfig t t Denied None)) ts)"
    by (simp_all add: ready_bot_def initial_bot_def)
  moreover have "length four_failing = 4 \<and> (\<forall>p \<in> set four_failing. snd p \<noteq> Sent)"
    by (simp add: four_failing_def)
  ultimately show ?thesis
    by (auto simp add: ready_bot_def initial_bot_def)
qed

end
